theory Spec2Isabelle
  imports Main "HOL-Library.Log_Nat"
begin

section \<open>Data model\<close>

text \<open>
  The Mongoose schemas of \<^verbatim>\<open>models/Grade.js\<close>, \<^verbatim>\<open>models/Subject.js\<close> and
  \<^verbatim>\<open>models/User.js\<close>. Object ids are natural numbers. Marks are whole numbers, on
  which the addition of JavaScript numbers is exact; a path that is \<^verbatim>\<open>undefined\<close> is
  \<open>None\<close>.
\<close>

type_synonym oid = nat

datatype role = Admin | Hod | Teacher | Student

record marks_t =
  theoryMarks :: "int option"
  practical :: "int option"
  internal :: "int option"
  total :: "int option"

text \<open>
  A stored Grade document. \<open>grade\<close> and \<open>gradePoints\<close> are \<^verbatim>\<open>required\<close> in
  the schema and are written by the pre-save hook on every \<^verbatim>\<open>save()\<close>.
\<close>

record grade_doc =
  g_id :: oid
  student :: oid
  subject :: oid
  teacher :: oid
  marks :: marks_t
  grade :: string
  gradePoints :: nat
  semester :: nat
  academicYear :: string
  examType :: string
  isPublished :: bool
  publishedAt :: "nat option"
  remarks :: "string option"

section \<open>Grade record computation (\<^verbatim>\<open>models/Grade.js\<close>)\<close>

text \<open>\<^verbatim>\<open>x || 0\<close> on an optional number: \<^verbatim>\<open>undefined\<close> and \<open>0\<close> both give \<open>0\<close>.\<close>

definition orZero :: "int option \<Rightarrow> int" where
  "orZero x = (case x of None \<Rightarrow> 0 | Some v \<Rightarrow> if v = 0 then 0 else v)"

text \<open>
  \<^verbatim>\<open>gradeSchema.methods.calculateGrade\<close>: reads \<^verbatim>\<open>this.marks.total\<close>, writes
  \<^verbatim>\<open>this.grade\<close> and \<^verbatim>\<open>this.gradePoints\<close>. Every comparison with
  \<^verbatim>\<open>undefined\<close> is false, so an undefined total falls through to the last branch.
\<close>

definition calculateGrade :: "grade_doc \<Rightarrow> grade_doc" where
  "calculateGrade this =
     (case total (marks this) of
        None \<Rightarrow> this\<lparr>grade := ''F'', gradePoints := 0\<rparr>
      | Some t \<Rightarrow>
          if t \<ge> 90 then this\<lparr>grade := ''O'', gradePoints := 10\<rparr>
          else if t \<ge> 80 then this\<lparr>grade := ''A+'', gradePoints := 9\<rparr>
          else if t \<ge> 70 then this\<lparr>grade := ''A'', gradePoints := 8\<rparr>
          else if t \<ge> 60 then this\<lparr>grade := ''B+'', gradePoints := 7\<rparr>
          else if t \<ge> 55 then this\<lparr>grade := ''B'', gradePoints := 6\<rparr>
          else if t \<ge> 50 then this\<lparr>grade := ''C'', gradePoints := 5\<rparr>
          else if t \<ge> 40 then this\<lparr>grade := ''P'', gradePoints := 4\<rparr>
          else this\<lparr>grade := ''F'', gradePoints := 0\<rparr>)"

text \<open>\<^verbatim>\<open>gradeSchema.pre('save', ...)\<close>: the total is recomputed, then the grade.\<close>

definition preSave :: "grade_doc \<Rightarrow> grade_doc" where
  "preSave this =
     calculateGrade
       (this\<lparr>marks := (marks this)\<lparr>total :=
          Some (orZero (theoryMarks (marks this)) + orZero (practical (marks this))
                + orZero (internal (marks this)))\<rparr>\<rparr>)"

text \<open>The scale of the specification, section 4.1, as a table on the total.\<close>

definition scale :: "int \<Rightarrow> string \<times> nat" where
  "scale t =
     (if 90 \<le> t then (''O'', 10)
      else if 80 \<le> t \<and> t < 90 then (''A+'', 9)
      else if 70 \<le> t \<and> t < 80 then (''A'', 8)
      else if 60 \<le> t \<and> t < 70 then (''B+'', 7)
      else if 55 \<le> t \<and> t < 60 then (''B'', 6)
      else if 50 \<le> t \<and> t < 55 then (''C'', 5)
      else if 40 \<le> t \<and> t < 50 then (''P'', 4)
      else (''F'', 0))"

definition component_ok :: "int option \<Rightarrow> bool" where
  "component_ok x = (case x of None \<Rightarrow> True | Some v \<Rightarrow> 0 \<le> v \<and> v \<le> 100)"

definition marksSum :: "marks_t \<Rightarrow> int" where
  "marksSum m = orZero (theoryMarks m) + orZero (practical m) + orZero (internal m)"

section \<open>JavaScript numbers\<close>

text \<open>
  The CGPA route divides two sums and formats the quotient with \<^verbatim>\<open>toFixed(2)\<close>. Grade
  points and credits are whole numbers, so the sums are exact in binary64; the quotient is
  not. \<open>fdivPos a b\<close> is the binary64 number that \<^verbatim>\<open>a / b\<close> evaluates to for positive
  integers below \<open>2^53\<close>: the quotient is scaled into \<open>[2^52, 2^53)\<close>, rounded to
  the nearest integer with ties to even, and scaled back. Values are kept as rationals, a
  binary64 number being one.
\<close>

datatype jsnum = Num rat | Infinity | NaN

text \<open>
  The strings \<^verbatim>\<open>toFixed(2)\<close> returns: a decimal numeral with two fraction digits,
  given by its value in hundredths, or one of the two non-numeric strings.
\<close>

datatype jsstr = Fixed int | StrInfinity | StrNaN

datatype jsval = JNum jsnum | JStr jsstr

definition roundHalfEven :: "rat \<Rightarrow> int" where
  "roundHalfEven x =
     (let f = \<lfloor>x\<rfloor>; r = x - of_int f
      in if r < 1 / 2 then f else if 1 / 2 < r then f + 1
         else if even f then f else f + 1)"

text \<open>The exponent of the binade of \<open>a / b\<close>: the \<open>k\<close> with \<open>2^k \<le> a / b < 2^(k+1)\<close>.\<close>

definition binade :: "nat \<Rightarrow> nat \<Rightarrow> int" where
  "binade a b =
     (let k = bitlen (int a) - bitlen (int b)
      in if 2 powi k \<le> (of_nat a / of_nat b :: rat) then k else k - 1)"

definition fdivPos :: "nat \<Rightarrow> nat \<Rightarrow> rat" where
  "fdivPos a b =
     (let e = binade a b - 52
      in of_int (roundHalfEven (of_nat a / of_nat b / 2 powi e)) * 2 powi e)"

text \<open>\<^verbatim>\<open>a / b\<close> on non-negative integers: a zero divisor gives \<^verbatim>\<open>NaN\<close> or \<^verbatim>\<open>Infinity\<close>.\<close>

definition jsdiv :: "nat \<Rightarrow> nat \<Rightarrow> jsnum" where
  "jsdiv a b =
     (if b = 0 then (if a = 0 then NaN else Infinity)
      else if a = 0 then Num 0 else Num (fdivPos a b))"

text \<open>
  \<^verbatim>\<open>Number.prototype.toFixed(2)\<close>: the integer \<open>n\<close> for which \<open>n / 100\<close> is closest
  to the number, the larger one when two are equally close; a negative number is
  formatted as the negation of its absolute value.
\<close>

definition toFixed2 :: "jsnum \<Rightarrow> jsstr" where
  "toFixed2 x =
     (case x of
        NaN \<Rightarrow> StrNaN
      | Infinity \<Rightarrow> StrInfinity
      | Num v \<Rightarrow> if v < 0 then Fixed (- \<lfloor>(- v) * 100 + 1 / 2\<rfloor>)
                 else Fixed \<lfloor>v * 100 + 1 / 2\<rfloor>)"

text \<open>
  \<^verbatim>\<open>parseFloat\<close> on what the route passes to it: a \<^verbatim>\<open>toFixed\<close> string or the number
  \<open>0\<close>. The number read back from a two-digit decimal is serialised in the JSON response
  as that decimal again, so it is kept as the decimal's value.
\<close>

definition parseFloat :: "jsval \<Rightarrow> jsnum" where
  "parseFloat v =
     (case v of
        JNum x \<Rightarrow> x
      | JStr (Fixed n) \<Rightarrow> Num (of_int n / 100)
      | JStr StrInfinity \<Rightarrow> Infinity
      | JStr StrNaN \<Rightarrow> NaN)"

section \<open>Collections and queries\<close>

record subject_doc =
  s_id :: oid
  s_name :: string
  s_code :: string
  s_credits :: nat
  s_department :: oid
  s_teacher :: "oid option"

record user_doc =
  u_id :: oid
  u_userId :: string
  u_email :: string
  u_role :: role
  u_department :: "oid option"

record db =
  users :: "user_doc list"
  subjects :: "subject_doc list"
  grades :: "grade_doc list"

definition findUser :: "db \<Rightarrow> oid \<Rightarrow> user_doc option" where
  "findUser d i = find (\<lambda>u. u_id u = i) (users d)"

definition findSubject :: "db \<Rightarrow> oid \<Rightarrow> subject_doc option" where
  "findSubject d i = find (\<lambda>s. s_id s = i) (subjects d)"

definition findGrade :: "db \<Rightarrow> oid \<Rightarrow> grade_doc option" where
  "findGrade d i = find (\<lambda>g. g_id g = i) (grades d)"

text \<open>
  A query filter on the Grade collection: one optional constraint for each path the routes
  filter on. \<open>f_subject\<close> holds the ids of an \<^verbatim>\<open>$in\<close> list, a single id being a
  one-element list.
\<close>

record grade_filter =
  f_student :: "oid option"
  f_subject :: "oid list option"
  f_teacher :: "oid option"
  f_semester :: "nat option"
  f_academicYear :: "string option"
  f_examType :: "string option"
  f_isPublished :: "bool option"

definition noFilter :: grade_filter where
  "noFilter = \<lparr>f_student = None, f_subject = None, f_teacher = None, f_semester = None,
               f_academicYear = None, f_examType = None, f_isPublished = None\<rparr>"

definition holds :: "'a option \<Rightarrow> ('a \<Rightarrow> bool) \<Rightarrow> bool" where
  "holds c p = (case c of None \<Rightarrow> True | Some v \<Rightarrow> p v)"

definition matches :: "grade_filter \<Rightarrow> grade_doc \<Rightarrow> bool" where
  "matches f g =
     (holds (f_student f) (\<lambda>v. student g = v)
      \<and> holds (f_subject f) (\<lambda>vs. subject g \<in> set vs)
      \<and> holds (f_teacher f) (\<lambda>v. teacher g = v)
      \<and> holds (f_semester f) (\<lambda>v. semester g = v)
      \<and> holds (f_academicYear f) (\<lambda>v. academicYear g = v)
      \<and> holds (f_examType f) (\<lambda>v. examType g = v)
      \<and> holds (f_isPublished f) (\<lambda>v. isPublished g = v))"

definition findGrades :: "db \<Rightarrow> grade_filter \<Rightarrow> grade_doc list" where
  "findGrades d f = filter (matches f) (grades d)"

text \<open>A response: a JSON body with its status, or a status with a \<^verbatim>\<open>message\<close>.\<close>

datatype 'a response = Body nat 'a | Msg nat string

text \<open>A non-empty query-string parameter; the empty string is falsy.\<close>

definition truthy :: "string option \<Rightarrow> string option" where
  "truthy s = (case s of None \<Rightarrow> None | Some v \<Rightarrow> if v = [] then None else Some v)"

section \<open>Aggregation: \<^verbatim>\<open>GET /api/grades/student/:studentId/cgpa\<close>\<close>

record sem_grade =
  sg_subject :: subject_doc
  sg_marks :: marks_t
  sg_grade :: string
  sg_gradePoints :: nat
  sg_credits :: nat

record sem_data =
  sd_semester :: nat
  sd_totalGradePoints :: nat
  sd_totalCredits :: nat
  sd_grades :: "sem_grade list"

record sem_out =
  so_data :: sem_data
  sgpa :: jsval

record overall_grade =
  og_subject :: subject_doc
  og_marks :: marks_t
  og_grade :: string
  og_gradePoints :: nat
  og_semester :: nat
  og_academicYear :: string

record cgpa_result =
  cgpa :: jsnum
  sgpaObject :: bool
  totalCredits :: nat
  gradesCount :: nat
  semesterWise :: "sem_out list"
  overallGrades :: "overall_grade list"

text \<open>
  \<^verbatim>\<open>semesterData\<close> is an object keyed by the semester number. The keys are integer
  keys, which \<^verbatim>\<open>Object.values\<close> enumerates in ascending order: the object is an
  association list kept in ascending key order.
\<close>

fun insertKey :: "nat \<Rightarrow> 'v \<Rightarrow> (nat \<times> 'v) list \<Rightarrow> (nat \<times> 'v) list" where
  "insertKey k v [] = [(k, v)]"
| "insertKey k v ((k', v') # r) =
     (if k < k' then (k, v) # (k', v') # r else (k', v') # insertKey k v r)"

definition updateKey :: "nat \<Rightarrow> ('v \<Rightarrow> 'v) \<Rightarrow> (nat \<times> 'v) list \<Rightarrow> (nat \<times> 'v) list" where
  "updateKey k f kvs = map (\<lambda>(k', v). if k' = k then (k', f v) else (k', v)) kvs"

type_synonym cgpa_acc = "(nat \<times> sem_data) list \<times> nat \<times> nat"

text \<open>The body of \<^verbatim>\<open>grades.forEach\<close>, on a grade with its subject populated.\<close>

definition cgpaStep :: "cgpa_acc \<Rightarrow> grade_doc \<times> subject_doc \<Rightarrow> cgpa_acc" where
  "cgpaStep acc gs =
     (case acc of (semesterData, totalGradePoints, totalCredits0) \<Rightarrow>
      case gs of (g, s) \<Rightarrow>
        let sem = semester g;
            credits = s_credits s;
            gradePoints0 = gradePoints g * credits;
            semesterData1 =
              (if map_of semesterData sem = None
               then insertKey sem \<lparr>sd_semester = sem, sd_totalGradePoints = 0,
                                    sd_totalCredits = 0, sd_grades = []\<rparr> semesterData
               else semesterData);
            semesterData2 =
              updateKey sem
                (\<lambda>e. e\<lparr>sd_totalGradePoints := sd_totalGradePoints e + gradePoints0,
                        sd_totalCredits := sd_totalCredits e + credits,
                        sd_grades := sd_grades e @
                          [\<lparr>sg_subject = s, sg_marks = marks g, sg_grade = grade g,
                            sg_gradePoints = gradePoints g, sg_credits = credits\<rparr>]\<rparr>)
                semesterData1
        in (semesterData2, totalGradePoints + gradePoints0, totalCredits0 + credits))"

definition sgpaOf :: "sem_data \<Rightarrow> jsval" where
  "sgpaOf sem =
     (if sd_totalCredits sem > 0
      then JStr (toFixed2 (jsdiv (sd_totalGradePoints sem) (sd_totalCredits sem)))
      else JNum (Num 0))"

text \<open>The computation after the query, on the populated grades in query order.\<close>

definition computeCGPA :: "(grade_doc \<times> subject_doc) list \<Rightarrow> cgpa_result" where
  "computeCGPA ps =
     (if length ps = 0
      then \<lparr>cgpa = Num 0, sgpaObject = True, totalCredits = 0, gradesCount = 0,
            semesterWise = [], overallGrades = []\<rparr>
      else
        case foldl cgpaStep ([], 0, 0) ps of (semesterData, totalGradePoints, totalCredits0) \<Rightarrow>
          let semesterWise0 = map (\<lambda>sem. \<lparr>so_data = sem, sgpa = sgpaOf sem\<rparr>) (map snd semesterData);
              cgpa0 = (if totalCredits0 > 0
                       then JStr (toFixed2 (jsdiv totalGradePoints totalCredits0))
                       else JNum (Num 0))
          in \<lparr>cgpa = parseFloat cgpa0, sgpaObject = False, totalCredits = totalCredits0,
               gradesCount = length ps, semesterWise = semesterWise0,
               overallGrades =
                 map (\<lambda>(g, s). \<lparr>og_subject = s, og_marks = marks g, og_grade = grade g,
                                 og_gradePoints = gradePoints g, og_semester = semester g,
                                 og_academicYear = academicYear g\<rparr>) ps\<rparr>)"

record cgpa_query =
  q_semester :: "nat option"
  q_academicYear :: "string option"

definition cgpaFilter :: "oid \<Rightarrow> cgpa_query \<Rightarrow> grade_filter" where
  "cgpaFilter studentId q =
     noFilter\<lparr>f_student := Some studentId, f_isPublished := Some True,
              f_semester := q_semester q, f_academicYear := truthy (q_academicYear q)\<rparr>"

text \<open>
  \<^verbatim>\<open>Grade.find(filter).populate('subject', ...).sort({ semester: 1, ... })\<close>: the
  matching grades in ascending semester order, each with its subject looked up. A subject
  reference that does not resolve is populated as \<^verbatim>\<open>null\<close>.
\<close>

definition selectGrades :: "db \<Rightarrow> oid \<Rightarrow> cgpa_query \<Rightarrow> (grade_doc \<times> subject_doc option) list" where
  "selectGrades d studentId q =
     map (\<lambda>g. (g, findSubject d (subject g)))
       (sort_key semester (findGrades d (cgpaFilter studentId q)))"

definition resolved :: "(grade_doc \<times> subject_doc option) list \<Rightarrow> (grade_doc \<times> subject_doc) list option" where
  "resolved gs = those (map (\<lambda>(g, s). map_option (Pair g) s) gs)"

text \<open>
  The route. Reading \<^verbatim>\<open>grade.subject.credits\<close> on a \<^verbatim>\<open>null\<close> subject throws, and the
  handler's \<^verbatim>\<open>catch\<close> answers 500; with no grade selected nothing is read and
  \<open>computeCGPA\<close> returns at its first test.
\<close>

definition getStudentCGPA :: "db \<Rightarrow> user_doc \<Rightarrow> oid \<Rightarrow> cgpa_query \<Rightarrow> cgpa_result response" where
  "getStudentCGPA d user studentId q =
     (if u_role user = Student \<and> u_id user \<noteq> studentId then Msg 403 ''Access denied''
      else
        case resolved (selectGrades d studentId q) of
          None \<Rightarrow> Msg 500 ''Server error''
        | Some ps \<Rightarrow> Body 200 (computeCGPA ps))"

text \<open>The sums the aggregation is specified by, over populated grades.\<close>

definition weighted :: "(grade_doc \<times> subject_doc) list \<Rightarrow> nat" where
  "weighted ps = sum_list (map (\<lambda>(g, s). gradePoints g * s_credits s) ps)"

definition creditSum :: "(grade_doc \<times> subject_doc) list \<Rightarrow> nat" where
  "creditSum ps = sum_list (map (\<lambda>(g, s). s_credits s) ps)"

definition inSemester :: "nat \<Rightarrow> (grade_doc \<times> subject_doc) list \<Rightarrow> (grade_doc \<times> subject_doc) list" where
  "inSemester k ps = filter (\<lambda>(g, s). semester g = k) ps"

definition cgpaInv :: "(grade_doc \<times> subject_doc) list \<Rightarrow> cgpa_acc \<Rightarrow> bool" where
  "cgpaInv ps acc =
     (case acc of (sd, tgp, tc) \<Rightarrow>
        tgp = weighted ps \<and> tc = creditSum ps
        \<and> sorted_wrt (<) (map fst sd)
        \<and> set (map fst sd) = (\<lambda>(g, s). semester g) ` set ps
        \<and> (\<forall>(k, e) \<in> set sd. sd_semester e = k
              \<and> sd_totalGradePoints e = weighted (inSemester k ps)
              \<and> sd_totalCredits e = creditSum (inSemester k ps)))"

section \<open>Grade routes (\<^verbatim>\<open>routes/grades.js\<close>)\<close>

text \<open>
  A request body describing a grade: \<^verbatim>\<open>req.body\<close> of the single routes and an element
  of \<^verbatim>\<open>req.body.grades\<close> of the bulk route. Every path is optional, and a caller may
  send the derived paths as well.
\<close>

record grade_data =
  d_student :: "oid option"
  d_subject :: "oid option"
  d_marks :: "marks_t option"
  d_grade :: "string option"
  d_gradePoints :: "nat option"
  d_semester :: "nat option"
  d_academicYear :: "string option"
  d_examType :: "string option"
  d_isPublished :: "bool option"
  d_publishedAt :: "nat option"
  d_remarks :: "string option"

text \<open>
  What \<^verbatim>\<open>save()\<close> does besides the hook of this repository is Mongoose's: casting,
  schema validation, the unique index. It is a parameter: given the collection, the
  request body and the document as assigned, it returns the message of the error thrown,
  or \<open>None\<close> when the document is written.
\<close>

type_synonym validator = "grade_doc list \<Rightarrow> grade_data \<Rightarrow> grade_doc \<Rightarrow> string option"

definition emptyMarks :: marks_t where
  "emptyMarks = \<lparr>theoryMarks = None, practical = None, internal = None, total = None\<rparr>"

text \<open>Assigning \<^verbatim>\<open>doc.marks = m\<close>; an undefined \<open>m\<close> leaves every component undefined.\<close>

definition marksOf :: "marks_t option \<Rightarrow> marks_t" where
  "marksOf m = (case m of None \<Rightarrow> emptyMarks | Some v \<Rightarrow> v)"

definition replaceGrade :: "grade_doc \<Rightarrow> grade_doc list \<Rightarrow> grade_doc list" where
  "replaceGrade g gs = map (\<lambda>x. if g_id x = g_id g then g else x) gs"

text \<open>
  \<^verbatim>\<open>doc.save()\<close>: the pre-save hook runs on the document, which is then written over the
  stored document of its id, or inserted.
\<close>

definition save :: "validator \<Rightarrow> grade_data \<Rightarrow> grade_doc \<Rightarrow> db \<Rightarrow> string + db" where
  "save v body this d =
     (case v (grades d) body this of
        Some e \<Rightarrow> Inl e
      | None \<Rightarrow>
          Inr (d\<lparr>grades :=
                 (if findGrade d (g_id this) = None then grades d @ [preSave this]
                  else replaceGrade (preSave this) (grades d))\<rparr>))"

text \<open>The id of a new document: one that no stored document has.\<close>

definition freshId :: "grade_doc list \<Rightarrow> oid" where
  "freshId gs = foldr (\<lambda>g m. max (Suc (g_id g)) m) gs 0"

text \<open>
  \<^verbatim>\<open>new Grade({...})\<close> with the schema defaults. The paths \<^verbatim>\<open>semester\<close> and
  \<^verbatim>\<open>academicYear\<close> are required and have no default: without them the document is
  rejected. An absent \<^verbatim>\<open>grade\<close> or \<^verbatim>\<open>gradePoints\<close> is the empty string and \<open>0\<close>
  until the hook writes them.
\<close>

definition newGrade :: "oid \<Rightarrow> oid \<Rightarrow> oid \<Rightarrow> oid \<Rightarrow> grade_data \<Rightarrow> string + grade_doc" where
  "newGrade i st su te data =
     (case d_semester data of
        None \<Rightarrow> Inl ''Grade validation failed: semester: Path `semester` is required.''
      | Some sem \<Rightarrow>
          case d_academicYear data of
            None \<Rightarrow> Inl ''Grade validation failed: academicYear: Path `academicYear` is required.''
          | Some yr \<Rightarrow>
              Inr \<lparr>g_id = i, student = st, subject = su, teacher = te,
                   marks = marksOf (d_marks data),
                   grade = (case d_grade data of None \<Rightarrow> [] | Some l \<Rightarrow> l),
                   gradePoints = (case d_gradePoints data of None \<Rightarrow> 0 | Some p \<Rightarrow> p),
                   semester = sem, academicYear = yr,
                   examType = (case d_examType data of None \<Rightarrow> ''Regular'' | Some e \<Rightarrow> e),
                   isPublished = (case d_isPublished data of None \<Rightarrow> False | Some b \<Rightarrow> b),
                   publishedAt = d_publishedAt data, remarks = d_remarks data\<rparr>)"

text \<open>\<^verbatim>\<open>Grade.findOne({ student, subject, examType })\<close>.\<close>

definition findOneGrade :: "db \<Rightarrow> oid \<Rightarrow> oid \<Rightarrow> string \<Rightarrow> grade_doc option" where
  "findOneGrade d st su et =
     find (\<lambda>g. student g = st \<and> subject g = su \<and> examType g = et) (grades d)"

text \<open>The middleware \<^verbatim>\<open>authorize(...roles)\<close>.\<close>

definition authorize :: "role list \<Rightarrow> user_doc \<Rightarrow> bool" where
  "authorize roles user = (u_role user \<in> set roles)"

definition outOfRange :: "int option \<Rightarrow> bool" where
  "outOfRange x = (case x of None \<Rightarrow> False | Some v \<Rightarrow> v < 0 \<or> v > 100)"

text \<open>The route's own test of the three components, in source order.\<close>

definition marksError :: "marks_t \<Rightarrow> string option" where
  "marksError m =
     (if outOfRange (theoryMarks m) then Some ''Theory marks must be between 0 and 100''
      else if outOfRange (practical m) then Some ''Practical marks must be between 0 and 100''
      else if outOfRange (internal m) then Some ''Internal marks must be between 0 and 100''
      else None)"

text \<open>The \<^verbatim>\<open>express-validator\<close> chain of \<^verbatim>\<open>POST /api/grades\<close>.\<close>

definition postBodyValid :: "grade_data \<Rightarrow> bool" where
  "postBodyValid body =
     (d_student body \<noteq> None \<and> d_subject body \<noteq> None
      \<and> (case d_semester body of None \<Rightarrow> False | Some n \<Rightarrow> 1 \<le> n \<and> n \<le> 8)
      \<and> (case d_academicYear body of None \<Rightarrow> False | Some y \<Rightarrow> y \<noteq> []))"

text \<open>
  \<^verbatim>\<open>POST /api/grades\<close>. A thrown error is answered by the handler's \<^verbatim>\<open>catch\<close> with
  500: \<^verbatim>\<open>req.user.department._id\<close> of a user without department, the department of a
  student without one, and a failing \<^verbatim>\<open>save()\<close>.
\<close>

definition createOrUpdateGrade ::
    "validator \<Rightarrow> db \<Rightarrow> user_doc \<Rightarrow> grade_data \<Rightarrow> grade_doc option response \<times> db" where
  "createOrUpdateGrade v d user body =
     (if \<not> authorize [Admin, Hod, Teacher] user
      then (Msg 403 ''Access denied. Insufficient permissions.'', d)
      else if \<not> postBodyValid body then (Msg 400 ''errors'', d)
      else
        case (d_student body, d_subject body, d_semester body, d_academicYear body) of
          (Some st, Some su, Some sem, Some yr) \<Rightarrow>
            (case findSubject d su of
               None \<Rightarrow> (Msg 400 ''Invalid subject'', d)
             | Some subjectDoc \<Rightarrow>
                 if u_role user = Teacher \<and> s_teacher subjectDoc \<noteq> Some (u_id user)
                 then (Msg 403 ''You are not assigned to this subject'', d)
                 else if u_role user = Hod \<and> u_department user = None
                 then (Msg 500 ''Server error'', d)
                 else if u_role user = Hod \<and> Some (s_department subjectDoc) \<noteq> u_department user
                 then (Msg 403 ''Subject not in your department'', d)
                 else
                   case findUser d st of
                     None \<Rightarrow> (Msg 400 ''Invalid student'', d)
                   | Some studentDoc \<Rightarrow>
                       if u_role studentDoc \<noteq> Student then (Msg 400 ''Invalid student'', d)
                       else if u_department studentDoc = None then (Msg 500 ''Server error'', d)
                       else if u_department studentDoc \<noteq> Some (s_department subjectDoc)
                       then (Msg 400 ''Student not in subject department'', d)
                       else
                         case d_marks body of
                           None \<Rightarrow> (Msg 400 ''Valid marks object is required'', d)
                         | Some m \<Rightarrow>
                             (case marksError m of
                                Some e \<Rightarrow> (Msg 400 e, d)
                              | None \<Rightarrow>
                                  let examType0 = (case d_examType body of
                                                     None \<Rightarrow> ''Regular'' | Some e \<Rightarrow> e)
                                  in case findOneGrade d st su examType0 of
                                       Some existingGrade \<Rightarrow>
                                         (case save v body
                                                 (existingGrade\<lparr>marks := m, semester := sem,
                                                    academicYear := yr, teacher := u_id user,
                                                    remarks := d_remarks body,
                                                    isPublished := False\<rparr>) d of
                                            Inl e \<Rightarrow> (Msg 500 ''Server error'', d)
                                          | Inr d' \<Rightarrow>
                                              (Body 200 (findGrade d' (g_id existingGrade)), d'))
                                     | None \<Rightarrow>
                                         let i = freshId (grades d)
                                         in case save v body
                                                  \<lparr>g_id = i, student = st, subject = su,
                                                    teacher = u_id user, marks = m, grade = [],
                                                    gradePoints = 0, semester = sem,
                                                    academicYear = yr, examType = examType0,
                                                    isPublished = False, publishedAt = None,
                                                    remarks = d_remarks body\<rparr> d of
                                              Inl e \<Rightarrow> (Msg 500 ''Server error'', d)
                                            | Inr d' \<Rightarrow> (Body 201 (findGrade d' i), d')))
        | _ \<Rightarrow> (Msg 400 ''errors'', d))"

text \<open>
  \<^verbatim>\<open>PUT /api/grades/:id\<close>, at time \<open>now\<close>. For a head of department the subject of
  the grade is looked up, and reading the department of a missing subject throws.
\<close>

definition updateGrade ::
    "validator \<Rightarrow> nat \<Rightarrow> db \<Rightarrow> user_doc \<Rightarrow> oid \<Rightarrow> grade_data \<Rightarrow> grade_doc option response \<times> db" where
  "updateGrade v now d user i body =
     (if \<not> authorize [Admin, Hod, Teacher] user
      then (Msg 403 ''Access denied. Insufficient permissions.'', d)
      else
        case findGrade d i of
          None \<Rightarrow> (Msg 404 ''Grade not found'', d)
        | Some g \<Rightarrow>
            if u_role user = Teacher \<and> teacher g \<noteq> u_id user
            then (Msg 403 ''Access denied'', d)
            else if u_role user = Hod
                    \<and> (findSubject d (subject g) = None \<or> u_department user = None)
            then (Msg 500 ''Server error'', d)
            else if u_role user = Hod
                    \<and> map_option s_department (findSubject d (subject g)) \<noteq> u_department user
            then (Msg 403 ''Access denied'', d)
            else
              case (case d_marks body of None \<Rightarrow> None | Some m \<Rightarrow> marksError m) of
                Some e \<Rightarrow> (Msg 400 e, d)
              | None \<Rightarrow>
                  let g1 = (case d_marks body of None \<Rightarrow> g | Some m \<Rightarrow> g\<lparr>marks := m\<rparr>);
                      g2 = (case d_remarks body of None \<Rightarrow> g1 | Some r \<Rightarrow> g1\<lparr>remarks := Some r\<rparr>);
                      g3 = (case d_isPublished body of
                              None \<Rightarrow> g2
                            | Some b \<Rightarrow>
                                if b then g2\<lparr>isPublished := b, publishedAt := Some now\<rparr>
                                else g2\<lparr>isPublished := b\<rparr>)
                  in case save v body g3 d of
                       Inl e \<Rightarrow> (Msg 500 ''Server error'', d)
                     | Inr d' \<Rightarrow> (Body 200 (findGrade d' (g_id g)), d'))"

text \<open>\<^verbatim>\<open>DELETE /api/grades/:id\<close>.\<close>

definition deleteGrade :: "db \<Rightarrow> user_doc \<Rightarrow> oid \<Rightarrow> unit response \<times> db" where
  "deleteGrade d user i =
     (if \<not> authorize [Admin, Hod] user
      then (Msg 403 ''Access denied. Insufficient permissions.'', d)
      else
        case findGrade d i of
          None \<Rightarrow> (Msg 404 ''Grade not found'', d)
        | Some g \<Rightarrow>
            if u_role user = Hod
               \<and> (findSubject d (subject g) = None \<or> u_department user = None)
            then (Msg 500 ''Server error'', d)
            else if u_role user = Hod
                    \<and> map_option s_department (findSubject d (subject g)) \<noteq> u_department user
            then (Msg 403 ''Access denied'', d)
            else (Msg 200 ''Grade deleted successfully'',
                  d\<lparr>grades := filter (\<lambda>x. g_id x \<noteq> i) (grades d)\<rparr>))"

text \<open>
  \<^verbatim>\<open>GET /api/grades\<close>: the query filter is built from the role, then from the query
  string. The response is a page of the matching grades; the list of all matches stands
  for it.
\<close>

record list_query =
  lq_student :: "oid option"
  lq_subject :: "oid option"
  lq_teacher :: "oid option"
  lq_semester :: "nat option"
  lq_academicYear :: "string option"
  lq_examType :: "string option"
  lq_isPublished :: "string option"

definition roleFilter :: "db \<Rightarrow> user_doc \<Rightarrow> grade_filter option" where
  "roleFilter d user =
     (case u_role user of
        Student \<Rightarrow> Some (noFilter\<lparr>f_student := Some (u_id user), f_isPublished := Some True\<rparr>)
      | Teacher \<Rightarrow> Some (noFilter\<lparr>f_teacher := Some (u_id user)\<rparr>)
      | Hod \<Rightarrow>
          (case u_department user of
             None \<Rightarrow> None
           | Some dep \<Rightarrow>
               Some (noFilter\<lparr>f_subject :=
                       Some (map s_id (filter (\<lambda>s. s_department s = dep) (subjects d)))\<rparr>))
      | Admin \<Rightarrow> Some noFilter)"

definition queryFilter :: "user_doc \<Rightarrow> list_query \<Rightarrow> grade_filter \<Rightarrow> grade_filter" where
  "queryFilter user q f0 =
     (let f1 = (case lq_student q of
                  Some st \<Rightarrow> if u_role user \<in> {Admin, Hod, Teacher}
                             then f0\<lparr>f_student := Some st\<rparr> else f0
                | None \<Rightarrow> f0);
          f2 = (case lq_subject q of Some su \<Rightarrow> f1\<lparr>f_subject := Some [su]\<rparr> | None \<Rightarrow> f1);
          f3 = (case lq_teacher q of
                  Some te \<Rightarrow> if u_role user \<in> {Admin, Hod} then f2\<lparr>f_teacher := Some te\<rparr> else f2
                | None \<Rightarrow> f2);
          f4 = (case lq_semester q of Some n \<Rightarrow> f3\<lparr>f_semester := Some n\<rparr> | None \<Rightarrow> f3);
          f5 = (case truthy (lq_academicYear q) of
                  Some y \<Rightarrow> f4\<lparr>f_academicYear := Some y\<rparr> | None \<Rightarrow> f4);
          f6 = (case truthy (lq_examType q) of
                  Some e \<Rightarrow> f5\<lparr>f_examType := Some e\<rparr> | None \<Rightarrow> f5)
      in case lq_isPublished q of
           Some p \<Rightarrow> if u_role user \<noteq> Student
                      then f6\<lparr>f_isPublished := Some (p = ''true'')\<rparr> else f6
         | None \<Rightarrow> f6)"

definition listGrades :: "db \<Rightarrow> user_doc \<Rightarrow> list_query \<Rightarrow> grade_doc list response" where
  "listGrades d user q =
     (case roleFilter d user of
        None \<Rightarrow> Msg 500 ''Server error''
      | Some f0 \<Rightarrow> Body 200 (findGrades d (queryFilter user q f0)))"

text \<open>
  \<^verbatim>\<open>GET /api/grades/:id\<close>. The grade is populated; a reference that does not resolve is
  \<^verbatim>\<open>null\<close>, and reading a path of it throws.
\<close>

definition getGradeById :: "db \<Rightarrow> user_doc \<Rightarrow> oid \<Rightarrow> grade_doc response" where
  "getGradeById d user i =
     (case findGrade d i of
        None \<Rightarrow> Msg 404 ''Grade not found''
      | Some g \<Rightarrow>
          (case u_role user of
             Student \<Rightarrow>
               (case findUser d (student g) of
                  None \<Rightarrow> Msg 500 ''Server error''
                | Some st \<Rightarrow>
                    if u_id st \<noteq> u_id user \<or> \<not> isPublished g
                    then Msg 403 ''Access denied'' else Body 200 g)
           | Teacher \<Rightarrow>
               (case findUser d (teacher g) of
                  None \<Rightarrow> Msg 500 ''Server error''
                | Some te \<Rightarrow>
                    if u_id te \<noteq> u_id user then Msg 403 ''Access denied'' else Body 200 g)
           | Hod \<Rightarrow>
               (case (findSubject d (subject g), u_department user) of
                  (Some su, Some dep) \<Rightarrow>
                    if s_department su \<noteq> dep then Msg 403 ''Access denied'' else Body 200 g
                | _ \<Rightarrow> Msg 500 ''Server error'')
           | Admin \<Rightarrow> Body 200 g))"




subsection \<open>Bulk routes\<close>

text \<open>
  The three bulk routes share their loop: each item is handled inside its own
  \<^verbatim>\<open>try\<close>, and either pushes \<^verbatim>\<open>{ row: i + 1, ... }\<close> to \<^verbatim>\<open>results.success\<close> or
  pushes \<^verbatim>\<open>{ row: i + 1, error }\<close> to \<^verbatim>\<open>results.errors\<close>, by an explicit
  \<^verbatim>\<open>continue\<close> or from the \<^verbatim>\<open>catch\<close>. The body of the loop gives, for an item and the
  store, the error message or the success entry and the store after it.
\<close>

record 'r bulk_results =
  success :: "(nat \<times> 'r) list"
  errors :: "(nat \<times> string) list"

fun bulkFor ::
    "('a \<Rightarrow> 's \<Rightarrow> string + 'r \<times> 's) \<Rightarrow> nat \<Rightarrow> 'a list
       \<Rightarrow> 'r bulk_results \<times> 's \<Rightarrow> 'r bulk_results \<times> 's" where
  "bulkFor body i [] acc = acc"
| "bulkFor body i (x # xs) (results, st) =
     bulkFor body (i + 1) xs
       (case body x st of
          Inl e \<Rightarrow> (results\<lparr>errors := errors results @ [(i + 1, e)]\<rparr>, st)
        | Inr (r, st') \<Rightarrow> (results\<lparr>success := success results @ [(i + 1, r)]\<rparr>, st'))"

definition noResults :: "'r bulk_results" where
  "noResults = \<lparr>success = [], errors = []\<rparr>"

text \<open>\<^verbatim>\<open>gradeData.examType || 'Regular'\<close>.\<close>

definition examTypeOr :: "string option \<Rightarrow> string" where
  "examTypeOr e = (case truthy e of None \<Rightarrow> ''Regular'' | Some v \<Rightarrow> v)"

text \<open>The loop body of \<^verbatim>\<open>POST /api/grades/bulk-create\<close>.\<close>

definition gradeItem :: "validator \<Rightarrow> user_doc \<Rightarrow> grade_data \<Rightarrow> db \<Rightarrow> string + (string \<times> oid) \<times> db" where
  "gradeItem v user gradeData d =
     (case (d_student gradeData, d_subject gradeData) of
        (Some st, Some su) \<Rightarrow>
          (case findOneGrade d st su (examTypeOr (d_examType gradeData)) of
             Some existingGrade \<Rightarrow>
               (case save v gradeData
                       (existingGrade\<lparr>marks := marksOf (d_marks gradeData),
                                       teacher := u_id user\<rparr>) d of
                  Inl e \<Rightarrow> Inl e
                | Inr d' \<Rightarrow> Inr ((''updated'', g_id existingGrade), d'))
           | None \<Rightarrow>
               (case newGrade (freshId (grades d)) st su (u_id user) gradeData of
                  Inl e \<Rightarrow> Inl e
                | Inr this \<Rightarrow>
                    (case save v gradeData this d of
                       Inl e \<Rightarrow> Inl e
                     | Inr d' \<Rightarrow> Inr ((''created'', g_id this), d'))))
      | _ \<Rightarrow> Inl ''Student and subject are required'')"

definition bulkCreateGrades ::
    "validator \<Rightarrow> db \<Rightarrow> user_doc \<Rightarrow> grade_data list
       \<Rightarrow> (string \<times> oid) bulk_results response \<times> db" where
  "bulkCreateGrades v d user items =
     (if \<not> authorize [Admin, Hod, Teacher] user
      then (Msg 403 ''Access denied. Insufficient permissions.'', d)
      else if length items = 0 then (Msg 400 ''Grades array is required'', d)
      else case bulkFor (gradeItem v user) 0 items (noResults, d) of
             (results, d') \<Rightarrow> (Body 200 results, d'))"








text \<open>
  \<^verbatim>\<open>POST /api/grades/publish-bulk\<close>, at time \<open>now\<close>. The permission loop answers at
  the first grade it refuses; \<^verbatim>\<open>updateMany\<close> writes the two publication paths and runs
  no hook.
\<close>

fun publishCheck :: "db \<Rightarrow> user_doc \<Rightarrow> grade_doc list \<Rightarrow> (nat \<times> string) option" where
  "publishCheck d user [] = None"
| "publishCheck d user (g # gs) =
     (if u_role user = Teacher
      then (if teacher g \<noteq> u_id user then Some (403, ''Access denied for some grades'')
            else publishCheck d user gs)
      else if u_role user = Hod
      then (case (findSubject d (subject g), u_department user) of
              (Some su, Some dep) \<Rightarrow>
                if s_department su \<noteq> dep then Some (403, ''Access denied for some grades'')
                else publishCheck d user gs
            | _ \<Rightarrow> Some (500, ''Server error''))
      else publishCheck d user gs)"

definition publishBulk :: "nat \<Rightarrow> db \<Rightarrow> user_doc \<Rightarrow> oid list \<Rightarrow> unit response \<times> db" where
  "publishBulk now d user gradeIds =
     (if \<not> authorize [Admin, Hod, Teacher] user
      then (Msg 403 ''Access denied. Insufficient permissions.'', d)
      else
        let gs = filter (\<lambda>g. g_id g \<in> set gradeIds) (grades d)
        in if length gs \<noteq> length gradeIds then (Msg 400 ''Some grades not found'', d)
           else case publishCheck d user gs of
                  Some (code, m) \<Rightarrow> (Msg code m, d)
                | None \<Rightarrow>
                    (Msg 200 ''grades published successfully'',
                     d\<lparr>grades :=
                         map (\<lambda>g. if g_id g \<in> set gradeIds
                                   then g\<lparr>isPublished := True, publishedAt := Some now\<rparr>
                                   else g) (grades d)\<rparr>))"



subsection \<open>Requests that write grades\<close>

datatype request =
    PostGrade user_doc grade_data
  | PutGrade nat user_doc oid grade_data
  | DeleteGrade user_doc oid
  | BulkCreate user_doc "grade_data list"
  | PublishBulk nat user_doc "oid list"

fun handle :: "validator \<Rightarrow> db \<Rightarrow> request \<Rightarrow> db" where
  "handle v d (PostGrade user body) = snd (createOrUpdateGrade v d user body)"
| "handle v d (PutGrade now user i body) = snd (updateGrade v now d user i body)"
| "handle v d (DeleteGrade user i) = snd (deleteGrade d user i)"
| "handle v d (BulkCreate user items) = snd (bulkCreateGrades v d user items)"
| "handle v d (PublishBulk now user ids) = snd (publishBulk now d user ids)"

text \<open>The derived fields of a stored grade agree with its marks.\<close>

definition derived_ok :: "grade_doc \<Rightarrow> bool" where
  "derived_ok g =
     (total (marks g) = Some (marksSum (marks g))
      \<and> (grade g, gradePoints g) = scale (marksSum (marks g)))"

definition all_derived_ok :: "db \<Rightarrow> bool" where
  "all_derived_ok d = list_all derived_ok (grades d)"

section \<open>Example data\<close>

text \<open>
  The two-semester case of the specification, section 8: one subject of 4 credits graded
  O in semester 1 and one subject of 2 credits graded P in semester 2.
\<close>

definition mkMarks :: "int \<Rightarrow> marks_t" where
  "mkMarks t = \<lparr>theoryMarks = Some t, practical = None, internal = None, total = None\<rparr>"

definition mkGrade :: "oid \<Rightarrow> oid \<Rightarrow> oid \<Rightarrow> oid \<Rightarrow> int \<Rightarrow> nat \<Rightarrow> bool \<Rightarrow> grade_doc" where
  "mkGrade i st su te t sem pub =
     preSave \<lparr>g_id = i, student = st, subject = su, teacher = te, marks = mkMarks t,
              grade = [], gradePoints = 0, semester = sem, academicYear = ''1st Year'',
              examType = ''Regular'', isPublished = pub, publishedAt = None,
              remarks = None\<rparr>"

definition exampleSubjects :: "subject_doc list" where
  "exampleSubjects =
     [\<lparr>s_id = 1, s_name = ''Algebra'', s_code = ''MA101'', s_credits = 4,
        s_department = 1, s_teacher = Some 20\<rparr>,
      \<lparr>s_id = 2, s_name = ''Logic'', s_code = ''MA102'', s_credits = 2,
        s_department = 1, s_teacher = Some 20\<rparr>,
      \<lparr>s_id = 3, s_name = ''Optics'', s_code = ''PH101'', s_credits = 3,
        s_department = 2, s_teacher = None\<rparr>]"

definition mkUser :: "oid \<Rightarrow> role \<Rightarrow> oid option \<Rightarrow> user_doc" where
  "mkUser i r dep = \<lparr>u_id = i, u_userId = ''user'', u_email = ''user@example.org'',
                      u_role = r, u_department = dep\<rparr>"

definition exampleUsers :: "user_doc list" where
  "exampleUsers =
     [mkUser 10 Admin None, mkUser 20 Teacher (Some 1), mkUser 21 Teacher (Some 1),
      mkUser 30 Hod (Some 1), mkUser 31 Hod (Some 2),
      mkUser 100 Student (Some 1), mkUser 101 Student (Some 1)]"

definition exampleDb :: db where
  "exampleDb =
     \<lparr>users = exampleUsers, subjects = exampleSubjects,
      grades = [mkGrade 1000 100 1 20 95 1 True, mkGrade 1001 100 2 20 45 2 True]\<rparr>"

definition exampleStudent :: user_doc where
  "exampleStudent = mkUser 100 Student (Some 1)"

definition noQuery :: cgpa_query where
  "noQuery = \<lparr>q_semester = None, q_academicYear = None\<rparr>"

definition examplePopulated :: "(grade_doc \<times> subject_doc) list" where
  "examplePopulated =
     [(mkGrade 1000 100 1 20 95 1 True,
       \<lparr>s_id = 1, s_name = ''Algebra'', s_code = ''MA101'', s_credits = 4,
         s_department = 1, s_teacher = Some 20\<rparr>),
      (mkGrade 1001 100 2 20 45 2 True,
       \<lparr>s_id = 2, s_name = ''Logic'', s_code = ''MA102'', s_credits = 2,
         s_department = 1, s_teacher = Some 20\<rparr>)]"

text \<open>
  A persistence layer for the examples: it enforces the declared range of the three
  components of the marks and of the semester.
\<close>

definition rangeValidator :: validator where
  "rangeValidator gs body this =
     (if \<not> (component_ok (theoryMarks (marks this)) \<and> component_ok (practical (marks this))
             \<and> component_ok (internal (marks this)))
      then Some ''Grade validation failed: marks''
      else if semester this < 1 \<or> 8 < semester this
      then Some ''Grade validation failed: semester''
      else None)"

definition noData :: grade_data where
  "noData = \<lparr>d_student = None, d_subject = None, d_marks = None, d_grade = None,
             d_gradePoints = None, d_semester = None, d_academicYear = None,
             d_examType = None, d_isPublished = None, d_publishedAt = None,
             d_remarks = None\<rparr>"

text \<open>
  A grade for student \<open>st\<close> in subject \<open>su\<close> with the given theory marks, sent with
  derived fields of the caller's choosing: total 300, grade O, 10 grade points.
\<close>

definition exampleData :: "oid \<Rightarrow> oid \<Rightarrow> int \<Rightarrow> grade_data" where
  "exampleData st su t =
     noData\<lparr>d_student := Some st, d_subject := Some su,
            d_marks := Some ((mkMarks t)\<lparr>total := Some 300\<rparr>),
            d_grade := Some ''O'', d_gradePoints := Some 10,
            d_semester := Some 1, d_academicYear := Some ''1st Year''\<rparr>"

definition exampleAdmin :: user_doc where
  "exampleAdmin = mkUser 10 Admin None"

definition exampleTeacher :: user_doc where
  "exampleTeacher = mkUser 20 Teacher (Some 1)"

definition otherTeacher :: user_doc where
  "otherTeacher = mkUser 21 Teacher (Some 1)"

definition exampleHod :: user_doc where
  "exampleHod = mkUser 30 Hod (Some 1)"



text \<open>A request body that carries marks and nothing else.\<close>

definition marksOnly :: "int \<Rightarrow> grade_data" where
  "marksOnly t = noData\<lparr>d_marks := Some (mkMarks t)\<rparr>"





text \<open>
  A second store: student 100 also has an unpublished grade, student 101 a published one,
  and subject 4 carries no credits.
\<close>

definition campusDb :: db where
  "campusDb =
     \<lparr>users = exampleUsers,
      subjects = exampleSubjects
        @ [\<lparr>s_id = 4, s_name = ''Seminar'', s_code = ''MA190'', s_credits = 0,
             s_department = 1, s_teacher = Some 21\<rparr>],
      grades = [mkGrade 1000 100 1 20 95 1 True, mkGrade 1001 100 2 20 45 2 True,
                mkGrade 1002 100 2 20 80 3 False, mkGrade 1003 101 4 21 60 1 True]\<rparr>"

definition noListQuery :: list_query where
  "noListQuery = \<lparr>lq_student = None, lq_subject = None, lq_teacher = None,
                  lq_semester = None, lq_academicYear = None, lq_examType = None,
                  lq_isPublished = None\<rparr>"





definition exampleRequests :: "request list" where
  "exampleRequests =
     [BulkCreate exampleTeacher [exampleData 101 1 45, noData, exampleData 101 2 120],
      PostGrade exampleAdmin (exampleData 100 1 72),
      PutGrade 7 exampleTeacher 1001
        (noData\<lparr>d_marks := Some \<lparr>theoryMarks = Some 30, practical = Some 5,
                                   internal = Some 4, total = Some 250\<rparr>\<rparr>),
      PublishBulk 8 exampleAdmin [1000, 1002],
      DeleteGrade exampleHod 1001]"

text \<open>The stored grades as the tuple of id, teacher, components' total, grade, points and publication.\<close>

definition summary :: "db \<Rightarrow> (oid \<times> oid \<times> int option \<times> string \<times> nat \<times> bool) list" where
  "summary d =
     map (\<lambda>g. (g_id g, teacher g, total (marks g), grade g, gradePoints g, isPublished g))
       (grades d)"



section \<open>Properties\<close>


lemma total_preSave: "total (marks (preSave g)) = Some (marksSum (marks g))"
  by (simp add: preSave_def calculateGrade_def marksSum_def)

lemma grade_preSave:
  "(grade (preSave g), gradePoints (preSave g)) = scale (marksSum (marks g))"
  by (simp add: preSave_def calculateGrade_def marksSum_def scale_def)



subsection \<open>The aggregation loop\<close>

lemma set_insertKey: "set (insertKey k v kvs) = insert (k, v) (set kvs)"
proof (induction kvs)
  case Nil
  show ?case by simp
next
  case (Cons a kvs)
  obtain k' v' where a: "a = (k', v')" by (cases a)
  show ?case using Cons.IH by (cases "k < k'") (auto simp: a)
qed

lemma keys_insertKey: "set (map fst (insertKey k v kvs)) = insert k (set (map fst kvs))"
  by (simp add: set_insertKey)

lemma sorted_insertKey:
  "sorted_wrt (<) (map fst kvs) \<Longrightarrow> k \<notin> set (map fst kvs)
     \<Longrightarrow> sorted_wrt (<) (map fst (insertKey k v kvs))"
proof (induction kvs)
  case Nil
  then show ?case by simp
next
  case (Cons a kvs)
  obtain k' v' where a: "a = (k', v')" by (cases a)
  show ?case
  proof (cases "k < k'")
    case True
    then show ?thesis using Cons.prems a by auto
  next
    case False
    then have lt: "k' < k" using Cons.prems a by auto
    have "sorted_wrt (<) (map fst (insertKey k v kvs))"
      using Cons by simp
    moreover have "\<forall>y \<in> set (map fst (insertKey k v kvs)). k' < y"
      unfolding keys_insertKey using lt Cons.prems(1) a by auto
    ultimately show ?thesis using a False by simp
  qed
qed

lemma keys_updateKey: "map fst (updateKey k f kvs) = map fst kvs"
  by (induction kvs) (auto simp: updateKey_def)

lemma set_updateKey:
  "set (updateKey k f kvs) = (\<lambda>(k', v). if k' = k then (k', f v) else (k', v)) ` set kvs"
  by (simp add: updateKey_def)

lemma map_of_None_keys: "map_of kvs k = None \<longleftrightarrow> k \<notin> set (map fst kvs)"
  by (simp add: map_of_eq_None_iff)

lemma weighted_snoc: "weighted (ps @ [(g, s)]) = weighted ps + gradePoints g * s_credits s"
  by (simp add: weighted_def)

lemma creditSum_snoc: "creditSum (ps @ [(g, s)]) = creditSum ps + s_credits s"
  by (simp add: creditSum_def)

lemma inSemester_snoc:
  "inSemester k (ps @ [(g, s)]) = (if semester g = k then inSemester k ps @ [(g, s)] else inSemester k ps)"
  by (simp add: inSemester_def)

lemma inSemester_none:
  "k \<notin> (\<lambda>(g, s). semester g) ` set ps \<Longrightarrow> inSemester k ps = []"
  by (auto simp: inSemester_def filter_empty_conv)

lemma cgpaInv_step:
  assumes "cgpaInv ps acc"
  shows "cgpaInv (ps @ [x]) (cgpaStep acc x)"
proof -
  obtain sd tgp tc where acc: "acc = (sd, tgp, tc)" by (cases acc)
  obtain g s where x: "x = (g, s)" by (cases x)
  let ?k = "semester g"
  let ?new = "\<lparr>sd_semester = ?k, sd_totalGradePoints = 0, sd_totalCredits = 0, sd_grades = []\<rparr>"
  let ?sd1 = "if map_of sd ?k = None then insertKey ?k ?new sd else sd"
  let ?f = "\<lambda>e. e\<lparr>sd_totalGradePoints := sd_totalGradePoints e + gradePoints g * s_credits s,
                    sd_totalCredits := sd_totalCredits e + s_credits s,
                    sd_grades := sd_grades e @
                      [\<lparr>sg_subject = s, sg_marks = marks g, sg_grade = grade g,
                        sg_gradePoints = gradePoints g, sg_credits = s_credits s\<rparr>]\<rparr>"
  have step: "cgpaStep acc x = (updateKey ?k ?f ?sd1, tgp + gradePoints g * s_credits s, tc + s_credits s)"
    by (simp add: cgpaStep_def acc x Let_def)
  from assms have inv:
    "tgp = weighted ps" "tc = creditSum ps" "sorted_wrt (<) (map fst sd)"
    "set (map fst sd) = (\<lambda>(g, s). semester g) ` set ps"
    "\<And>k e. (k, e) \<in> set sd \<Longrightarrow> sd_semester e = k
        \<and> sd_totalGradePoints e = weighted (inSemester k ps)
        \<and> sd_totalCredits e = creditSum (inSemester k ps)"
    by (auto simp: cgpaInv_def acc)
  have keys1: "set (map fst ?sd1) = insert ?k (set (map fst sd))"
  proof (cases "map_of sd ?k = None")
    case True
    then show ?thesis by (simp add: set_insertKey)
  next
    case False
    then have "?k \<in> set (map fst sd)" by (simp add: map_of_eq_None_iff)
    then show ?thesis using False by auto
  qed
  have sorted1: "sorted_wrt (<) (map fst ?sd1)"
  proof (cases "map_of sd ?k = None")
    case True
    then have "?k \<notin> set (map fst sd)" by (simp add: map_of_eq_None_iff)
    then have "sorted_wrt (<) (map fst (insertKey ?k ?new sd))"
      using inv(3) by (rule sorted_insertKey[rotated])
    then show ?thesis using True by simp
  next
    case False
    then show ?thesis using inv(3) by auto
  qed
  have ent1: "sd_semester e = k
        \<and> sd_totalGradePoints e = weighted (inSemester k ps)
        \<and> sd_totalCredits e = creditSum (inSemester k ps)" if "(k, e) \<in> set ?sd1" for k e
  proof (cases "(k, e) \<in> set sd")
    case True
    then show ?thesis by (rule inv(5))
  next
    case False
    with that have n: "map_of sd ?k = None" and ke: "k = ?k" "e = ?new"
      by (auto simp: set_insertKey split: if_splits)
    have "inSemester ?k ps = []"
      using n inv(4) by (intro inSemester_none) (simp add: map_of_None_keys)
    then show ?thesis using ke by (simp add: weighted_def creditSum_def)
  qed
  have ent2: "sd_semester e = k
        \<and> sd_totalGradePoints e = weighted (inSemester k (ps @ [x]))
        \<and> sd_totalCredits e = creditSum (inSemester k (ps @ [x]))"
    if "(k, e) \<in> set (updateKey ?k ?f ?sd1)" for k e
  proof -
    from that obtain e0 where e0: "(k, e0) \<in> set ?sd1" "e = (if k = ?k then ?f e0 else e0)"
      unfolding set_updateKey by (auto split: if_splits)
    show ?thesis using ent1[OF e0(1)] e0(2)
      by (simp add: x inSemester_snoc weighted_snoc creditSum_snoc)
  qed
  have k2: "set (map fst (updateKey ?k ?f ?sd1)) = (\<lambda>(g, s). semester g) ` set (ps @ [x])"
    unfolding keys_updateKey keys1 inv(4) by (auto simp: x)
  have s2: "sorted_wrt (<) (map fst (updateKey ?k ?f ?sd1))"
    unfolding keys_updateKey by (rule sorted1)
  have t1: "tgp + gradePoints g * s_credits s = weighted (ps @ [x])"
    by (simp add: x weighted_snoc inv(1))
  have t2: "tc + s_credits s = creditSum (ps @ [x])"
    by (simp add: x creditSum_snoc inv(2))
  have e2: "\<forall>(k, e) \<in> set (updateKey ?k ?f ?sd1). sd_semester e = k
        \<and> sd_totalGradePoints e = weighted (inSemester k (ps @ [x]))
        \<and> sd_totalCredits e = creditSum (inSemester k (ps @ [x]))"
  proof (rule ballI)
    fix p assume p: "p \<in> set (updateKey ?k ?f ?sd1)"
    obtain k e where ke: "p = (k, e)" by (cases p)
    show "case p of (k, e) \<Rightarrow> sd_semester e = k
        \<and> sd_totalGradePoints e = weighted (inSemester k (ps @ [x]))
        \<and> sd_totalCredits e = creditSum (inSemester k (ps @ [x]))"
      unfolding ke prod.case by (rule ent2) (use p ke in simp)
  qed
  show ?thesis
    unfolding step cgpaInv_def prod.case
    by (intro conjI t1 t2 s2 k2 e2)
qed

lemma cgpaInv_foldl: "cgpaInv ps (foldl cgpaStep ([], 0, 0) ps)"
proof (induction ps rule: rev_induct)
  case Nil
  show ?case by (simp add: cgpaInv_def weighted_def creditSum_def)
next
  case (snoc x xs)
  then show ?case by (simp add: cgpaInv_step)
qed

lemma roundHalfEven_err: "\<bar>of_int (roundHalfEven x) - x\<bar> \<le> 1 / 2"
proof -
  define f where "f = \<lfloor>x\<rfloor>"
  have f: "of_int f \<le> x" "x < of_int f + 1"
    unfolding f_def by linarith+
  consider "x - of_int f < 1 / 2" | "1 / 2 < x - of_int f" | "x - of_int f = 1 / 2"
    by linarith
  then show ?thesis
  proof cases
    case 1
    then have "roundHalfEven x = f" by (simp add: roundHalfEven_def f_def)
    then show ?thesis using 1 f by simp
  next
    case 2
    then have "roundHalfEven x = f + 1" by (simp add: roundHalfEven_def f_def)
    then show ?thesis using 2 f by simp
  next
    case 3
    then have "roundHalfEven x = f \<or> roundHalfEven x = f + 1"
      by (simp add: roundHalfEven_def f_def Let_def)
    then show ?thesis using 3 f by auto
  qed
qed

lemma binade_lower:
  assumes "0 < a" "0 < b"
  shows "2 powi (binade a b) \<le> (of_nat a / of_nat b :: rat)"
proof (cases "2 powi (bitlen (int a) - bitlen (int b)) \<le> (of_nat a / of_nat b :: rat)")
  case True
  then show ?thesis by (simp add: binade_def)
next
  case False
  let ?la = "bitlen (int a)" and ?lb = "bitlen (int b)"
  have la: "2 ^ nat (?la - 1) \<le> int a" and lb: "int b < 2 ^ nat ?lb"
    using bitlen_bounds[of "int a"] bitlen_bounds[of "int b"] assms by simp_all
  have la1: "1 \<le> ?la" using assms(1) by (simp add: bitlen_alt_def)
  have lb0: "0 \<le> ?lb" by (rule bitlen_nonneg)
  have A: "(2::rat) powi (?la - 1) \<le> of_nat a"
  proof -
    have "(of_int (2 ^ nat (?la - 1)) :: rat) \<le> of_int (int a)"
      using la by (simp only: of_int_le_iff)
    then show ?thesis using la1 by (simp add: power_int_def)
  qed
  have B: "(of_nat b :: rat) \<le> 2 powi ?lb"
  proof -
    have "(of_int (int b) :: rat) \<le> of_int (2 ^ nat ?lb)"
      using lb by (simp only: of_int_le_iff)
    then show ?thesis using lb0 by (simp add: power_int_def)
  qed
  have pos: "(0::rat) < 2 powi ?lb" by (simp add: power_int_def)
  have bpos: "(0::rat) < of_nat b" using assms(2) by simp
  have "(2::rat) powi (?la - ?lb - 1) = 2 powi (?la - 1) / 2 powi ?lb"
    by (simp add: power_int_diff)
  also have "\<dots> \<le> of_nat a / 2 powi ?lb"
    using A pos by (simp add: divide_right_mono)
  also have "\<dots> \<le> of_nat a / of_nat b"
    using B bpos by (simp add: divide_left_mono)
  finally show ?thesis using False by (simp add: binade_def)
qed

lemma fdivPos_err:
  assumes "0 < a" "0 < b"
  shows "\<bar>fdivPos a b - of_nat a / of_nat b\<bar> \<le> (of_nat a / of_nat b) / 2 ^ 53"
proof -
  let ?q = "of_nat a / of_nat b :: rat"
  let ?e = "binade a b - 52"
  let ?p = "(2::rat) powi ?e"
  have ppos: "0 < ?p" by (simp add: power_int_def)
  have pe: "?p = 2 powi (binade a b) / 2 ^ 52"
    by (simp add: power_int_diff)
  define m :: rat where "m = of_int (roundHalfEven (?q / ?p))"
  have r: "\<bar>m - ?q / ?p\<bar> \<le> 1 / 2"
    unfolding m_def by (rule roundHalfEven_err)
  have "fdivPos a b - ?q = (m - ?q / ?p) * ?p"
    using ppos by (simp add: fdivPos_def m_def Let_def field_simps)
  then have "\<bar>fdivPos a b - ?q\<bar> = \<bar>m - ?q / ?p\<bar> * ?p"
    using ppos by (simp add: abs_mult)
  also have "\<dots> \<le> 1 / 2 * ?p"
    using r ppos by (rule mult_right_mono[OF _ less_imp_le])
  also have "\<dots> \<le> ?q / 2 ^ 53"
    using binade_lower[OF assms] by (simp add: pe field_simps)
  finally show ?thesis .
qed

lemma toFixed2_jsdiv_nearest:
  assumes b: "0 < b" and small: "200 * a < 2 ^ 53"
  shows "\<exists>n. toFixed2 (jsdiv a b) = Fixed n
           \<and> \<bar>of_int n / 100 - (of_nat a / of_nat b :: rat)\<bar> \<le> 1 / 200"
proof (cases "a = 0")
  case True
  have "\<lfloor>1 / 2 :: rat\<rfloor> = 0" by (rule floor_unique) simp_all
  then show ?thesis using True b by (simp add: jsdiv_def toFixed2_def)
next
  case False
  then have a: "0 < a" by simp
  let ?q = "of_nat a / of_nat b :: rat"
  let ?d = "fdivPos a b"
  let ?n = "\<lfloor>?d * 100 + 1 / 2\<rfloor>"
  have bpos: "(0::rat) < of_nat b" using b by simp
  have qpos: "0 < ?q" using a b by simp
  have err: "\<bar>?d - ?q\<bar> \<le> ?q / 2 ^ 53" by (rule fdivPos_err[OF a b])
  have dnn: "0 \<le> ?d" using err qpos
  proof -
    have "?q / 2 ^ 53 \<le> ?q" using qpos by (simp add: field_simps)
    then show ?thesis using err by linarith
  qed
  have sm: "(200 * of_nat a :: rat) < 2 ^ 53"
  proof -
    have "(of_nat (200 * a) :: rat) < of_nat (2 ^ 53)"
      using small by (simp only: of_nat_less_iff)
    then show ?thesis by simp
  qed
  have bound: "100 * (?q / 2 ^ 53) < 1 / (2 * of_nat b)"
    using sm bpos by (simp add: field_simps)
  have close: "\<bar>100 * ?d - 100 * ?q\<bar> < 1 / (2 * of_nat b)"
  proof -
    have "\<bar>100 * ?d - 100 * ?q\<bar> = 100 * \<bar>?d - ?q\<bar>" by (simp add: abs_if)
    also have "\<dots> \<le> 100 * (?q / 2 ^ 53)" using err by simp
    finally show ?thesis using bound by linarith
  qed
  have fl: "of_int ?n \<le> ?d * 100 + 1 / 2" "?d * 100 + 1 / 2 < of_int ?n + 1"
    by linarith+
  have c1: "100 * ?d - 100 * ?q < 1 / (2 * of_nat b)"
    and c2: "100 * ?q - 100 * ?d < 1 / (2 * of_nat b)"
    using close by (simp_all only: abs_less_iff) simp_all
  text \<open>clear denominators: everything times 2b\<close>
  have up: "of_int ?n * (2 * of_nat b) < (200 * of_nat a + of_nat b + 1 :: rat)"
  proof -
    have "of_int ?n < 100 * ?q + 1 / 2 + 1 / (2 * of_nat b)"
      using fl(1) c1 by linarith
    then have "of_int ?n * (2 * of_nat b) < (100 * ?q + 1 / 2 + 1 / (2 * of_nat b)) * (2 * of_nat b)"
      using bpos by (simp add: mult_strict_right_mono)
    also have "\<dots> = 200 * of_nat a + of_nat b + 1"
      using bpos by (simp add: field_simps)
    finally show ?thesis .
  qed
  have lo: "(200 * of_nat a - of_nat b - 1 :: rat) < of_int ?n * (2 * of_nat b)"
  proof -
    have "100 * ?q + 1 / 2 - 1 / (2 * of_nat b) - 1 < of_int ?n"
      using fl(2) c2 by linarith
    then have "(100 * ?q + 1 / 2 - 1 / (2 * of_nat b) - 1) * (2 * of_nat b) < of_int ?n * (2 * of_nat b)"
      using bpos by (simp add: mult_strict_right_mono)
    moreover have "(100 * ?q +  1 / 2 - 1 / (2 * of_nat b) - 1) * (2 * of_nat b) = 200 * of_nat a - of_nat b - 1"
      using bpos by (simp add: field_simps)
    ultimately show ?thesis by simp
  qed
  have upi: "?n * (2 * int b) \<le> 200 * int a + int b"
  proof -
    have "(of_int (?n * (2 * int b)) :: rat) < of_int (200 * int a + int b + 1)"
      using up by simp
    then have "?n * (2 * int b) < 200 * int a + int b + 1"
      by (simp only: of_int_less_iff)
    then show ?thesis by simp
  qed
  have loi: "200 * int a - int b \<le> ?n * (2 * int b)"
  proof -
    have "(of_int (200 * int a - int b - 1) :: rat) < of_int (?n * (2 * int b))"
      using lo by simp
    then have "200 * int a - int b - 1 < ?n * (2 * int b)"
      by (simp only: of_int_less_iff)
    then show ?thesis by simp
  qed
  have upr: "of_int ?n * (2 * of_nat b) \<le> (200 * of_nat a + of_nat b :: rat)"
  proof -
    have "(of_int (?n * (2 * int b)) :: rat) \<le> of_int (200 * int a + int b)"
      using upi by (simp only: of_int_le_iff)
    then show ?thesis by simp
  qed
  have lor: "(200 * of_nat a - of_nat b :: rat) \<le> of_int ?n * (2 * of_nat b)"
  proof -
    have "(of_int (200 * int a - int b) :: rat) \<le> of_int (?n * (2 * int b))"
      using loi by (simp only: of_int_le_iff)
    then show ?thesis by simp
  qed
  have "\<bar>of_int ?n / 100 - ?q\<bar> \<le> 1 / 200"
    using upr lor bpos by (simp add: abs_if field_simps)
  moreover have "toFixed2 (jsdiv a b) = Fixed ?n"
    using a b dnn by (simp add: jsdiv_def toFixed2_def)
  ultimately show ?thesis by blast
qed


lemma those_Some: "those xs = Some ys \<Longrightarrow> xs = map Some ys"
proof (induction xs arbitrary: ys)
  case Nil
  then show ?case by simp
next
  case (Cons x xs)
  then show ?case by (cases x) (auto split: option.splits)
qed

lemma resolved_Some:
  assumes "resolved gs = Some ps"
  shows "gs = map (\<lambda>(g, s). (g, Some s)) ps"
proof -
  have "map (\<lambda>(g, s). map_option (Pair g) s) gs = map Some ps"
    using assms unfolding resolved_def by (rule those_Some)
  then show ?thesis
  proof (induction gs arbitrary: ps)
    case Nil
    then show ?case by simp
  next
    case (Cons a gs)
    then obtain p ps' where ps: "ps = p # ps'" by (cases ps) auto
    obtain g so where a: "a = (g, so)" by (cases a)
    from Cons.prems have hd: "map_option (Pair g) so = Some p"
      and tl: "map (\<lambda>(g, s). map_option (Pair g) s) gs = map Some ps'"
      by (simp_all add: ps a)
    from hd have "a = (case p of (g, s) \<Rightarrow> (g, Some s))"
      by (cases so) (auto simp: a)
    then show ?case using Cons.IH[OF tl] by (simp add: ps)
  qed
qed

lemma selectGrades_sound:
  assumes "(g, so) \<in> set (selectGrades d studentId q)"
  shows "g \<in> set (grades d) \<and> student g = studentId \<and> isPublished g
         \<and> so = findSubject d (subject g)"
proof -
  from assms have g: "g \<in> set (findGrades d (cgpaFilter studentId q))"
    and so: "so = findSubject d (subject g)"
    by (auto simp: selectGrades_def)
  from g have "g \<in> set (grades d)" and m: "matches (cgpaFilter studentId q) g"
    by (simp_all add: findGrades_def)
  moreover from m have "student g = studentId" "isPublished g"
    by (simp_all add: matches_def cgpaFilter_def noFilter_def holds_def)
  ultimately show ?thesis using so by simp
qed

lemma sgpaOf_nearest:
  assumes "0 < sd_totalCredits e" "200 * sd_totalGradePoints e < 2 ^ 53"
  shows "\<exists>n. sgpaOf e = JStr (Fixed n)
           \<and> \<bar>of_int n / 100 - (of_nat (sd_totalGradePoints e) / of_nat (sd_totalCredits e) :: rat)\<bar> \<le> 1 / 200"
proof -
  from toFixed2_jsdiv_nearest[OF assms] obtain n where
    n: "toFixed2 (jsdiv (sd_totalGradePoints e) (sd_totalCredits e)) = Fixed n"
    "\<bar>of_int n / 100 - (of_nat (sd_totalGradePoints e) / of_nat (sd_totalCredits e) :: rat)\<bar> \<le> 1 / 200"
    by blast
  have "sgpaOf e = JStr (Fixed n)"
    using assms(1) n(1) by (simp only: sgpaOf_def if_True)
  then show ?thesis using n(2) by blast
qed


text \<open>
  C1. Whenever the CGPA route answers with a result, the result is computed from the
  published grades selected for the student, each with its subject: the semester entries
  are one for each semester that occurs, an entry holds the sum of grade points times
  credits and the sum of credits over the grades of its semester, and its \<open>sgpa\<close> is
  \<^verbatim>\<open>toFixed(2)\<close> of their quotient; \<open>cgpa\<close> is \<^verbatim>\<open>toFixed(2)\<close> of the quotient of
  the two sums over all selected grades, read back as a number. It is formed from the
  unrounded totals, not from the rounded semester values. Rounded to two decimals means:
  as long as 200 times the weighted sum is below \<open>2^53\<close>, the value is a multiple of
  \<open>1/100\<close> at distance at most \<open>1/200\<close> from the exact quotient.
\<close>

theorem C1_cgpa_credit_weighted:
  assumes "getStudentCGPA d user studentId q = Body 200 r"
  shows "\<exists>ps. resolved (selectGrades d studentId q) = Some ps
           \<and> (\<forall>(g, s) \<in> set ps. g \<in> set (grades d) \<and> student g = studentId \<and> isPublished g)
           \<and> gradesCount r = length ps
           \<and> totalCredits r = creditSum ps
           \<and> cgpa r = (if 0 < creditSum ps
                       then parseFloat (JStr (toFixed2 (jsdiv (weighted ps) (creditSum ps))))
                       else Num 0)
           \<and> (0 < creditSum ps \<and> 200 * weighted ps < 2 ^ 53 \<longrightarrow>
                (\<exists>n. cgpa r = Num (of_int n / 100)
                   \<and> \<bar>of_int n / 100 - (of_nat (weighted ps) / of_nat (creditSum ps) :: rat)\<bar> \<le> 1 / 200))
           \<and> distinct (map (\<lambda>e. sd_semester (so_data e)) (semesterWise r))
           \<and> set (map (\<lambda>e. sd_semester (so_data e)) (semesterWise r))
               = (\<lambda>(g, s). semester g) ` set ps
           \<and> (\<forall>e \<in> set (semesterWise r).
                sd_totalGradePoints (so_data e)
                  = weighted (inSemester (sd_semester (so_data e)) ps)
                \<and> sd_totalCredits (so_data e)
                  = creditSum (inSemester (sd_semester (so_data e)) ps)
                \<and> sgpa e = (if 0 < sd_totalCredits (so_data e)
                            then JStr (toFixed2 (jsdiv (sd_totalGradePoints (so_data e))
                                                      (sd_totalCredits (so_data e))))
                            else JNum (Num 0))
                \<and> (0 < sd_totalCredits (so_data e)
                     \<and> 200 * sd_totalGradePoints (so_data e) < 2 ^ 53 \<longrightarrow>
                    (\<exists>n. sgpa e = JStr (Fixed n)
                       \<and> \<bar>of_int n / 100 - (of_nat (sd_totalGradePoints (so_data e))
                                           / of_nat (sd_totalCredits (so_data e)) :: rat)\<bar> \<le> 1 / 200)))"
proof -
  from assms obtain ps where res: "resolved (selectGrades d studentId q) = Some ps"
    and r: "r = computeCGPA ps"
    by (auto simp: getStudentCGPA_def split: if_splits option.splits)
  have sel: "\<forall>(g, s) \<in> set ps. g \<in> set (grades d) \<and> student g = studentId \<and> isPublished g"
  proof (intro ballI, clarify)
    fix g s assume "(g, s) \<in> set ps"
    then have "(g, Some s) \<in> set (selectGrades d studentId q)"
      unfolding resolved_Some[OF res] by force
    then show "g \<in> set (grades d) \<and> student g = studentId \<and> isPublished g"
      using selectGrades_sound by blast
  qed
  obtain sd tgp tc where f: "foldl cgpaStep ([], 0, 0) ps = (sd, tgp, tc)"
    by (cases "foldl cgpaStep ([], 0, 0) ps")
  have inv: "tgp = weighted ps" "tc = creditSum ps" "sorted_wrt (<) (map fst sd)"
    "set (map fst sd) = (\<lambda>(g, s). semester g) ` set ps"
    "\<And>k e. (k, e) \<in> set sd \<Longrightarrow> sd_semester e = k
        \<and> sd_totalGradePoints e = weighted (inSemester k ps)
        \<and> sd_totalCredits e = creditSum (inSemester k ps)"
    using cgpaInv_foldl[of ps] unfolding f cgpaInv_def prod.case by blast+
  have keys: "map (\<lambda>e. sd_semester e) (map snd sd) = map fst sd"
    using inv(5) by (auto simp: map_eq_conv)
  have sw: "semesterWise r = (if ps = [] then [] else map (\<lambda>sem. \<lparr>so_data = sem, sgpa = sgpaOf sem\<rparr>) (map snd sd))"
    by (simp add: r computeCGPA_def f Let_def)
  have sd_nil: "ps = [] \<Longrightarrow> sd = []"
    using f by simp
  have sw': "semesterWise r = map (\<lambda>sem. \<lparr>so_data = sem, sgpa = sgpaOf sem\<rparr>) (map snd sd)"
    using sw sd_nil by (cases "ps = []") simp_all
  have semkeys: "map (\<lambda>e. sd_semester (so_data e)) (semesterWise r) = map fst sd"
    unfolding sw' using keys by (simp add: comp_def)
  have c1: "gradesCount r = length ps"
    by (simp add: r computeCGPA_def f Let_def)
  have c2: "totalCredits r = creditSum ps"
    by (simp add: r computeCGPA_def f Let_def inv(2) creditSum_def)
  have c3: "cgpa r = (if 0 < creditSum ps
                       then parseFloat (JStr (toFixed2 (jsdiv (weighted ps) (creditSum ps))))
                       else Num 0)"
  proof (cases "ps = []")
    case True
    then show ?thesis by (simp add: r computeCGPA_def creditSum_def)
  next
    case False
    then show ?thesis
      by (simp add: r computeCGPA_def f Let_def inv(1,2) parseFloat_def)
  qed
  have c4: "0 < creditSum ps \<and> 200 * weighted ps < 2 ^ 53 \<longrightarrow>
                (\<exists>n. cgpa r = Num (of_int n / 100)
                   \<and> \<bar>of_int n / 100 - (of_nat (weighted ps) / of_nat (creditSum ps) :: rat)\<bar> \<le> 1 / 200)"
  proof (intro impI, elim conjE)
    assume h: "0 < creditSum ps" "200 * weighted ps < 2 ^ 53"
    from toFixed2_jsdiv_nearest[OF h] obtain n where
      n: "toFixed2 (jsdiv (weighted ps) (creditSum ps)) = Fixed n"
         "\<bar>of_int n / 100 - (of_nat (weighted ps) / of_nat (creditSum ps) :: rat)\<bar> \<le> 1 / 200"
      by blast
    have "cgpa r = Num (of_int n / 100)"
      using c3 h(1) n(1) by (simp add: parseFloat_def)
    then show "\<exists>n. cgpa r = Num (of_int n / 100)
                   \<and> \<bar>of_int n / 100 - (of_nat (weighted ps) / of_nat (creditSum ps) :: rat)\<bar> \<le> 1 / 200"
      using n(2) by blast
  qed
  have c5: "distinct (map (\<lambda>e. sd_semester (so_data e)) (semesterWise r))"
    unfolding semkeys using inv(3) by (simp add: strict_sorted_iff)
  have c6: "set (map (\<lambda>e. sd_semester (so_data e)) (semesterWise r))
               = (\<lambda>(g, s). semester g) ` set ps"
    unfolding semkeys by (rule inv(4))
  have c7: "\<forall>e \<in> set (semesterWise r).
                sd_totalGradePoints (so_data e)
                  = weighted (inSemester (sd_semester (so_data e)) ps)
                \<and> sd_totalCredits (so_data e)
                  = creditSum (inSemester (sd_semester (so_data e)) ps)
                \<and> sgpa e = (if 0 < sd_totalCredits (so_data e)
                            then JStr (toFixed2 (jsdiv (sd_totalGradePoints (so_data e))
                                                      (sd_totalCredits (so_data e))))
                            else JNum (Num 0))
                \<and> (0 < sd_totalCredits (so_data e)
                     \<and> 200 * sd_totalGradePoints (so_data e) < 2 ^ 53 \<longrightarrow>
                    (\<exists>n. sgpa e = JStr (Fixed n)
                       \<and> \<bar>of_int n / 100 - (of_nat (sd_totalGradePoints (so_data e))
                                           / of_nat (sd_totalCredits (so_data e)) :: rat)\<bar> \<le> 1 / 200))"
    (is "\<forall>e \<in> _. ?P e")
  proof (rule ballI)
    fix e assume "e \<in> set (semesterWise r)"
    then obtain k sem where ks: "(k, sem) \<in> set sd" and e: "e = \<lparr>so_data = sem, sgpa = sgpaOf sem\<rparr>"
      unfolding sw' by auto
    have a: "so_data e = sem" "sgpa e = sgpaOf sem" by (simp_all add: e)
    have i: "sd_semester sem = k" "sd_totalGradePoints sem = weighted (inSemester k ps)"
      "sd_totalCredits sem = creditSum (inSemester k ps)"
      using inv(5)[OF ks] by simp_all
    have p1: "sd_totalGradePoints sem = weighted (inSemester (sd_semester sem) ps)"
      by (simp add: i)
    have p2: "sd_totalCredits sem = creditSum (inSemester (sd_semester sem) ps)"
      by (simp add: i)
    have p3: "sgpaOf sem = (if 0 < sd_totalCredits sem
                            then JStr (toFixed2 (jsdiv (sd_totalGradePoints sem)
                                                      (sd_totalCredits sem)))
                            else JNum (Num 0))"
      by (simp add: sgpaOf_def)
    have p4: "0 < sd_totalCredits sem \<and> 200 * sd_totalGradePoints sem < 2 ^ 53 \<longrightarrow>
                    (\<exists>n. sgpaOf sem = JStr (Fixed n)
                       \<and> \<bar>of_int n / 100 - (of_nat (sd_totalGradePoints sem)
                                           / of_nat (sd_totalCredits sem) :: rat)\<bar> \<le> 1 / 200)"
      using sgpaOf_nearest[of sem] by blast
    show "?P e"
      unfolding a by (intro conjI p1 p2 p3 p4)
  qed
  show ?thesis
    by (intro exI[of _ ps] conjI) (rule res sel c1 c2 c3 c4 c5 c6 c7)+
qed

text \<open>
  The two-semester example of the specification: a 4-credit subject graded \<open>O\<close> in
  semester 1 and a 2-credit subject graded \<open>P\<close> in semester 2. The semester values are
  \<open>10.00\<close> and \<open>4.00\<close>, whose mean is 7, and the CGPA is \<open>48 / 6 = 8\<close>.
\<close>

theorem C1_cgpa_credit_weighted_witness:
  "getStudentCGPA exampleDb exampleStudent 100 noQuery = Body 200 (computeCGPA examplePopulated)
   \<and> resolved (selectGrades exampleDb 100 noQuery) = Some examplePopulated
   \<and> weighted examplePopulated = 48 \<and> creditSum examplePopulated = 6
   \<and> totalCredits (computeCGPA examplePopulated) = 6
   \<and> cgpa (computeCGPA examplePopulated) = Num 8
   \<and> map sgpa (semesterWise (computeCGPA examplePopulated))
       = [JStr (Fixed 1000), JStr (Fixed 400)]"
proof -
  have h: "getStudentCGPA exampleDb exampleStudent 100 noQuery
             = Body 200 (computeCGPA examplePopulated)"
    by code_simp
  have r: "resolved (selectGrades exampleDb 100 noQuery) = Some examplePopulated"
    by code_simp
  have w: "weighted examplePopulated = 48" and c: "creditSum examplePopulated = 6"
    by code_simp+
  have v: "parseFloat (JStr (toFixed2 (jsdiv 48 6))) = Num 8"
    by code_simp
  have s: "map sgpa (semesterWise (computeCGPA examplePopulated))
             = [JStr (Fixed 1000), JStr (Fixed 400)]"
    by code_simp
  from C1_cgpa_credit_weighted[OF h] obtain ps where
    ps: "resolved (selectGrades exampleDb 100 noQuery) = Some ps"
    and t: "totalCredits (computeCGPA examplePopulated) = creditSum ps"
    and g: "cgpa (computeCGPA examplePopulated)
          = (if 0 < creditSum ps
             then parseFloat (JStr (toFixed2 (jsdiv (weighted ps) (creditSum ps))))
             else Num 0)"
    by (elim exE conjE)
  from ps r have "ps = examplePopulated" by simp
  with t g have "totalCredits (computeCGPA examplePopulated) = 6"
    "cgpa (computeCGPA examplePopulated) = Num 8"
    by (simp_all add: w c v)
  then show ?thesis using h r w c s by simp
qed



subsection \<open>The write routes\<close>

lemma marksSum_preSave: "marksSum (marks (preSave g)) = marksSum (marks g)"
  by (simp add: preSave_def calculateGrade_def marksSum_def)

lemma derived_ok_preSave: "derived_ok (preSave g)"
  unfolding derived_ok_def marksSum_preSave
  by (simp only: total_preSave grade_preSave)

lemma save_cases:
  assumes "save v body this d = Inr d'"
  shows "v (grades d) body this = None
         \<and> users d' = users d \<and> subjects d' = subjects d
         \<and> grades d' = (if findGrade d (g_id this) = None then grades d @ [preSave this]
                         else replaceGrade (preSave this) (grades d))"
  using assms by (auto simp: save_def split: option.splits)

lemma save_derived_ok:
  assumes "save v body this d = Inr d'" "all_derived_ok d"
  shows "all_derived_ok d'"
  using save_cases[OF assms(1)] assms(2) derived_ok_preSave[of this]
  by (auto simp: all_derived_ok_def replaceGrade_def list_all_iff)

lemma postGrade_success:
  assumes "createOrUpdateGrade v d user body = (Body code r, d')"
  shows "\<exists>st su sem yr m subjectDoc studentDoc.
           d_student body = Some st \<and> d_subject body = Some su \<and> d_semester body = Some sem
           \<and> d_academicYear body = Some yr \<and> d_marks body = Some m
           \<and> u_role user \<noteq> Student
           \<and> findSubject d su = Some subjectDoc
           \<and> (u_role user = Teacher \<longrightarrow> s_teacher subjectDoc = Some (u_id user))
           \<and> (u_role user = Hod \<longrightarrow> u_department user = Some (s_department subjectDoc))
           \<and> findUser d st = Some studentDoc \<and> u_role studentDoc = Student
           \<and> u_department studentDoc = Some (s_department subjectDoc)
           \<and> marksError m = None
           \<and> (case findOneGrade d st su (case d_examType body of None \<Rightarrow> ''Regular'' | Some e \<Rightarrow> e) of
                 Some existingGrade \<Rightarrow>
                   save v body (existingGrade\<lparr>marks := m, semester := sem, academicYear := yr,
                                  teacher := u_id user, remarks := d_remarks body,
                                  isPublished := False\<rparr>) d = Inr d'
                   \<and> code = 200 \<and> r = findGrade d' (g_id existingGrade)
               | None \<Rightarrow>
                   save v body \<lparr>g_id = freshId (grades d), student = st, subject = su,
                                 teacher = u_id user, marks = m, grade = [],
                                 gradePoints = 0, semester = sem,
                                 academicYear = yr,
                                 examType = (case d_examType body of None \<Rightarrow> ''Regular'' | Some e \<Rightarrow> e),
                                 isPublished = False, publishedAt = None,
                                 remarks = d_remarks body\<rparr> d = Inr d'
                   \<and> code = 201 \<and> r = findGrade d' (freshId (grades d)))"
  using assms
  by (auto simp: createOrUpdateGrade_def authorize_def Let_def
      split: if_splits option.splits sum.splits prod.splits role.splits)


lemma postGrade_fail:
  assumes "createOrUpdateGrade v d user body = (Msg code m, d')"
  shows "d' = d"
  using assms
  by (auto simp: createOrUpdateGrade_def Let_def
      split: if_splits option.splits sum.splits prod.splits)

lemma postGrade_db:
  "snd (createOrUpdateGrade v d user body) = d
   \<or> (\<exists>this. save v body this d = Inr (snd (createOrUpdateGrade v d user body)))"
proof (cases "createOrUpdateGrade v d user body")
  case (Pair resp d')
  show ?thesis
  proof (cases resp)
    case (Body code r)
    from postGrade_success[OF Pair[unfolded Body]]
    have "\<exists>this. save v body this d = Inr d'"
      by (auto split: option.splits)
    then show ?thesis using Pair by simp
  next
    case (Msg code m)
    then show ?thesis using Pair postGrade_fail by fastforce
  qed
qed

lemma putGrade_success:
  assumes "updateGrade v now d user i body = (Body code r, d')"
  shows "\<exists>g. findGrade d i = Some g \<and> u_role user \<noteq> Student
           \<and> (u_role user = Teacher \<longrightarrow> teacher g = u_id user)
           \<and> (u_role user = Hod \<longrightarrow>
                 (\<exists>su. findSubject d (subject g) = Some su
                    \<and> u_department user = Some (s_department su)))
           \<and> (case d_marks body of None \<Rightarrow> True | Some m \<Rightarrow> marksError m = None)
           \<and> save v body
                 ((case d_isPublished body of
                     None \<Rightarrow> (\<lambda>x. x)
                   | Some b \<Rightarrow> if b then (\<lambda>x. x\<lparr>isPublished := b, publishedAt := Some now\<rparr>)
                              else (\<lambda>x. x\<lparr>isPublished := b\<rparr>))
                  ((case d_remarks body of None \<Rightarrow> (\<lambda>x. x) | Some t \<Rightarrow> (\<lambda>x. x\<lparr>remarks := Some t\<rparr>))
                   ((case d_marks body of None \<Rightarrow> (\<lambda>x. x) | Some m \<Rightarrow> (\<lambda>x. x\<lparr>marks := m\<rparr>)) g)))
                 d = Inr d'
           \<and> code = 200 \<and> r = findGrade d' (g_id g)"
  using assms
  by (auto simp: updateGrade_def authorize_def Let_def
      split: if_splits option.splits sum.splits role.splits)

lemma putGrade_fail:
  assumes "updateGrade v now d user i body = (Msg code m, d')"
  shows "d' = d"
  using assms
  by (auto simp: updateGrade_def Let_def
      split: if_splits option.splits sum.splits)

lemma putGrade_db:
  "snd (updateGrade v now d user i body) = d
   \<or> (\<exists>this. save v body this d = Inr (snd (updateGrade v now d user i body)))"
proof (cases "updateGrade v now d user i body")
  case (Pair resp d')
  show ?thesis
  proof (cases resp)
    case (Body code r)
    from putGrade_success[OF Pair[unfolded Body]]
    have "\<exists>this. save v body this d = Inr d'"
      by blast
    then show ?thesis using Pair by simp
  next
    case (Msg code m)
    then show ?thesis using Pair putGrade_fail by fastforce
  qed
qed

lemma deleteGrade_db:
  "snd (deleteGrade d user i) = d
   \<or> snd (deleteGrade d user i) = d\<lparr>grades := filter (\<lambda>x. g_id x \<noteq> i) (grades d)\<rparr>"
  by (auto simp: deleteGrade_def split: if_splits option.splits)

lemma publishBulk_db:
  "snd (publishBulk now d user ids) = d
   \<or> snd (publishBulk now d user ids)
       = d\<lparr>grades := map (\<lambda>g. if g_id g \<in> set ids
                                 then g\<lparr>isPublished := True, publishedAt := Some now\<rparr>
                                 else g) (grades d)\<rparr>"
  by (auto simp: publishBulk_def Let_def split: if_splits option.splits)

lemma gradeItem_db:
  assumes "gradeItem v user x d = Inr (r, d')"
  shows "\<exists>this. save v x this d = Inr d'"
  using assms
  by (auto simp: gradeItem_def split: option.splits sum.splits prod.splits)

lemma bulkFor_invariant:
  assumes step: "\<And>x st r st'. P st \<Longrightarrow> body x st = Inr (r, st') \<Longrightarrow> P st'"
    and "P st"
  shows "P (snd (bulkFor body i xs (res, st)))"
  using assms(2)
proof (induction xs arbitrary: i res st)
  case Nil
  then show ?case by simp
next
  case (Cons x xs)
  show ?case
  proof (cases "body x st")
    case (Inl e)
    then show ?thesis using Cons by simp
  next
    case (Inr p)
    obtain r st' where p: "p = (r, st')" by (cases p)
    have "P st'" using step[OF Cons.prems] Inr p by simp
    then show ?thesis using Cons.IH Inr p by simp
  qed
qed

lemma bulkCreateGrades_db:
  "snd (bulkCreateGrades v d user items) = d
   \<or> snd (bulkCreateGrades v d user items) = snd (bulkFor (gradeItem v user) 0 items (noResults, d))"
  by (auto simp: bulkCreateGrades_def split: prod.splits)

lemma derived_ok_published:
  "derived_ok (g\<lparr>isPublished := b, publishedAt := t\<rparr>) = derived_ok g"
  by (simp add: derived_ok_def)

lemma handle_derived_ok:
  assumes "all_derived_ok d"
  shows "all_derived_ok (handle v d req)"
proof (cases req)
  case (PostGrade user body)
  then show ?thesis
    using postGrade_db[of v d user body] assms save_derived_ok by auto
next
  case (PutGrade now user i body)
  then show ?thesis
    using putGrade_db[of v now d user i body] assms save_derived_ok by auto
next
  case (DeleteGrade user i)
  have "all_derived_ok (d\<lparr>grades := filter (\<lambda>x. g_id x \<noteq> i) (grades d)\<rparr>)"
    using assms by (simp add: all_derived_ok_def list_all_iff)
  then show ?thesis
    using DeleteGrade deleteGrade_db[of d user i] assms by auto
next
  case (BulkCreate user items)
  have "all_derived_ok (snd (bulkFor (gradeItem v user) 0 items (noResults, d)))"
    using assms
    by (rule bulkFor_invariant[where P = all_derived_ok, rotated])
       (blast dest: gradeItem_db save_derived_ok)
  then show ?thesis
    using BulkCreate bulkCreateGrades_db[of v d user items] assms by auto
next
  case (PublishBulk now user ids)
  have "all_derived_ok (d\<lparr>grades := map (\<lambda>g. if g_id g \<in> set ids
                                 then g\<lparr>isPublished := True, publishedAt := Some now\<rparr>
                                 else g) (grades d)\<rparr>)"
    using assms by (auto simp: all_derived_ok_def list_all_iff derived_ok_published)
  then show ?thesis
    using PublishBulk publishBulk_db[of now d user ids] assms by auto
qed

text \<open>
  C3. Every stored grade has as total the sum of its three components (a missing one
  counting as 0) and as grade and grade points the scale at that total, after any
  sequence of write requests, whatever the requests carry and whatever the persistence
  layer accepts: every \<^verbatim>\<open>save()\<close> recomputes the three fields from the marks, and
  the one write that runs no hook, the bulk publication, leaves marks and derived fields
  alone. No route stores the grade \<^verbatim>\<open>Ab\<close>.
\<close>

theorem C3_derived_fields_invariant:
  assumes "all_derived_ok d"
  shows "all_derived_ok (foldl (handle v) d reqs)"
  using assms
proof (induction reqs arbitrary: d)
  case Nil
  then show ?case by simp
next
  case (Cons req reqs)
  then show ?case by (simp add: handle_derived_ok)
qed


theorem C3_derived_fields_invariant_witness:
  "all_derived_ok exampleDb
   \<and> all_derived_ok (foldl (handle rangeValidator) exampleDb exampleRequests)
   \<and> summary (foldl (handle rangeValidator) exampleDb (take 2 exampleRequests))
       = [(1000, 10, Some 72, ''A'', 8, False), (1001, 20, Some 45, ''P'', 4, True),
          (1002, 20, Some 45, ''P'', 4, False)]
   \<and> summary (foldl (handle rangeValidator) exampleDb exampleRequests)
       = [(1000, 10, Some 72, ''A'', 8, True), (1002, 20, Some 45, ''P'', 4, True)]"
proof -
  have a: "all_derived_ok exampleDb" by code_simp
  have b: "summary (foldl (handle rangeValidator) exampleDb (take 2 exampleRequests))
       = [(1000, 10, Some 72, ''A'', 8, False), (1001, 20, Some 45, ''P'', 4, True),
          (1002, 20, Some 45, ''P'', 4, False)]"
    by code_simp
  have c: "summary (foldl (handle rangeValidator) exampleDb exampleRequests)
       = [(1000, 10, Some 72, ''A'', 8, True), (1002, 20, Some 45, ''P'', 4, True)]"
    by code_simp
  show ?thesis
    using a b c C3_derived_fields_invariant[OF a, of rangeValidator exampleRequests]
    by simp
qed

lemma preSave_fields:
  "g_id (preSave g) = g_id g" "student (preSave g) = student g"
  "subject (preSave g) = subject g" "teacher (preSave g) = teacher g"
  "examType (preSave g) = examType g" "isPublished (preSave g) = isPublished g"
  "semester (preSave g) = semester g" "academicYear (preSave g) = academicYear g"
  "remarks (preSave g) = remarks g" "publishedAt (preSave g) = publishedAt g"
  "theoryMarks (marks (preSave g)) = theoryMarks (marks g)"
  "practical (marks (preSave g)) = practical (marks g)"
  "internal (marks (preSave g)) = internal (marks g)"
  by (simp_all add: preSave_def calculateGrade_def split: option.splits)

lemma find_replace:
  assumes "find (\<lambda>x. g_id x = i) gs \<noteq> None" "g_id g = i"
  shows "find (\<lambda>x. g_id x = i) (map (\<lambda>x. if g_id x = g_id g then g else x) gs) = Some g"
  using assms by (induction gs) auto

lemma find_append_new:
  assumes "find (\<lambda>x. g_id x = i) gs = None" "g_id g = i"
  shows "find (\<lambda>x. g_id x = i) (gs @ [g]) = Some g"
  using assms by (induction gs) (auto split: if_splits)

lemma save_findGrade:
  assumes "save v body this d = Inr d'"
  shows "findGrade d' (g_id this) = Some (preSave this)"
proof (cases "findGrade d (g_id this) = None")
  case True
  then show ?thesis
    using save_cases[OF assms] find_append_new[of "g_id this" "grades d" "preSave this"]
    by (simp add: findGrade_def preSave_fields)
next
  case False
  then show ?thesis
    using save_cases[OF assms] find_replace[of "g_id this" "grades d" "preSave this"]
    by (auto simp: findGrade_def replaceGrade_def preSave_fields)
qed

lemma findOneGrade_Some:
  assumes "findOneGrade d st su et = Some e"
  shows "e \<in> set (grades d) \<and> student e = st \<and> subject e = su \<and> examType e = et"
  using assms unfolding findOneGrade_def find_Some_iff by (auto simp: in_set_conv_nth)

lemma findGrade_Some:
  assumes "findGrade d i = Some g"
  shows "g \<in> set (grades d) \<and> g_id g = i"
  using assms unfolding findGrade_def find_Some_iff by (auto simp: in_set_conv_nth)

lemma findUser_Some:
  assumes "findUser d i = Some u"
  shows "u \<in> set (users d) \<and> u_id u = i"
  using assms unfolding findUser_def find_Some_iff by (auto simp: in_set_conv_nth)

lemma findSubject_Some:
  assumes "findSubject d i = Some s"
  shows "s \<in> set (subjects d) \<and> s_id s = i"
  using assms unfolding findSubject_def find_Some_iff by (auto simp: in_set_conv_nth)

text \<open>The update branch of the upsert.\<close>

lemma postGrade_update:
  assumes "createOrUpdateGrade v d user body = (Body 200 r, d')"
  shows "\<exists>e st su m sem yr.
           d_student body = Some st \<and> d_subject body = Some su
           \<and> findOneGrade d st su
                (case d_examType body of None \<Rightarrow> ''Regular'' | Some x \<Rightarrow> x) = Some e
           \<and> d_marks body = Some m \<and> d_semester body = Some sem \<and> d_academicYear body = Some yr
           \<and> r = Some (preSave (e\<lparr>marks := m, semester := sem, academicYear := yr,
                                   teacher := u_id user, remarks := d_remarks body,
                                   isPublished := False\<rparr>))
           \<and> findGrade d' (g_id e) = r"
proof -
  from postGrade_success[OF assms] obtain st su sem yr m where
    b: "d_student body = Some st" "d_subject body = Some su" "d_semester body = Some sem"
       "d_academicYear body = Some yr" "d_marks body = Some m"
    and c: "case findOneGrade d st su (case d_examType body of None \<Rightarrow> ''Regular'' | Some e \<Rightarrow> e) of
                 Some existingGrade \<Rightarrow>
                   save v body (existingGrade\<lparr>marks := m, semester := sem, academicYear := yr,
                                  teacher := u_id user, remarks := d_remarks body,
                                  isPublished := False\<rparr>) d = Inr d'
                   \<and> (200::nat) = 200 \<and> r = findGrade d' (g_id existingGrade)
               | None \<Rightarrow>
                   save v body \<lparr>g_id = freshId (grades d), student = st, subject = su,
                                 teacher = u_id user, marks = m, grade = [],
                                 gradePoints = 0, semester = sem,
                                 academicYear = yr,
                                 examType = (case d_examType body of None \<Rightarrow> ''Regular'' | Some e \<Rightarrow> e),
                                 isPublished = False, publishedAt = None,
                                 remarks = d_remarks body\<rparr> d = Inr d'
                   \<and> (200::nat) = 201 \<and> r = findGrade d' (freshId (grades d))"
    by blast
  from c obtain e where e: "findOneGrade d st su (case d_examType body of None \<Rightarrow> ''Regular'' | Some e \<Rightarrow> e) = Some e"
    and s: "save v body (e\<lparr>marks := m, semester := sem, academicYear := yr,
                                  teacher := u_id user, remarks := d_remarks body,
                                  isPublished := False\<rparr>) d = Inr d'"
    and r: "r = findGrade d' (g_id e)"
    by (auto split: option.splits)
  from save_findGrade[OF s] have "findGrade d' (g_id e)
      = Some (preSave (e\<lparr>marks := m, semester := sem, academicYear := yr,
                                   teacher := u_id user, remarks := d_remarks body,
                                   isPublished := False\<rparr>))"
    by simp
  then show ?thesis using b e r by auto
qed


lemma putGrade_result:
  assumes "updateGrade v now d user i body = (Body code r, d')"
  shows "\<exists>g0 g. findGrade d i = Some g0 \<and> r = Some g \<and> findGrade d' i = Some g
           \<and> g_id g = i
           \<and> isPublished g = (case d_isPublished body of None \<Rightarrow> isPublished g0 | Some b \<Rightarrow> b)
           \<and> teacher g = teacher g0 \<and> student g = student g0 \<and> subject g = subject g0
           \<and> examType g = examType g0
           \<and> (u_role user = Teacher \<longrightarrow> teacher g0 = u_id user)"
proof -
  from putGrade_success[OF assms] obtain g where
    g: "findGrade d i = Some g"
    and t: "u_role user = Teacher \<longrightarrow> teacher g = u_id user"
    and s: "save v body
                 ((case d_isPublished body of
                     None \<Rightarrow> (\<lambda>x. x)
                   | Some b \<Rightarrow> if b then (\<lambda>x. x\<lparr>isPublished := b, publishedAt := Some now\<rparr>)
                              else (\<lambda>x. x\<lparr>isPublished := b\<rparr>))
                  ((case d_remarks body of None \<Rightarrow> (\<lambda>x. x) | Some t \<Rightarrow> (\<lambda>x. x\<lparr>remarks := Some t\<rparr>))
                   ((case d_marks body of None \<Rightarrow> (\<lambda>x. x) | Some m \<Rightarrow> (\<lambda>x. x\<lparr>marks := m\<rparr>)) g)))
                 d = Inr d'" (is "save v body ?doc d = Inr d'")
    and r: "r = findGrade d' (g_id g)"
    by blast
  have i: "g_id g = i" using findGrade_Some[OF g] by simp
  have id: "g_id ?doc = g_id g" "teacher ?doc = teacher g" "student ?doc = student g"
    "subject ?doc = subject g" "examType ?doc = examType g"
    "isPublished ?doc = (case d_isPublished body of None \<Rightarrow> isPublished g | Some b \<Rightarrow> b)"
    by (auto split: option.splits)
  from save_findGrade[OF s] have f: "findGrade d' i = Some (preSave ?doc)"
    unfolding id(1) i .
  show ?thesis
    apply (rule exI[of _ g], rule exI[of _ "preSave ?doc"])
    using g r f i t id by (simp add: preSave_fields)
qed





text \<open>
  C5, as the routes have it. The upsert of \<^verbatim>\<open>POST /api/grades\<close> on an existing
  (student, subject, examType) key stores the new marks and leaves the grade
  unpublished. \<^verbatim>\<open>PUT /api/grades/:id\<close> leaves \<open>isPublished\<close> at the boolean the
  request sends, and unchanged when it sends none: an edit of the marks alone does not
  reset it.
\<close>

theorem C5_publication_after_edit:
  "(createOrUpdateGrade v d user body = (Body 200 r, d') \<longrightarrow>
      (\<exists>st su e g. d_student body = Some st \<and> d_subject body = Some su
            \<and> findOneGrade d st su
                (case d_examType body of None \<Rightarrow> ''Regular'' | Some x \<Rightarrow> x) = Some e
            \<and> findGrade d' (g_id e) = Some g \<and> r = Some g
            \<and> Some (theoryMarks (marks g)) = map_option theoryMarks (d_marks body)
            \<and> Some (practical (marks g)) = map_option practical (d_marks body)
            \<and> Some (internal (marks g)) = map_option internal (d_marks body)
            \<and> \<not> isPublished g))
   \<and> (updateGrade v now d user i body = (Body code r, d') \<longrightarrow>
      (\<exists>g0 g. findGrade d i = Some g0 \<and> findGrade d' i = Some g \<and> r = Some g
            \<and> isPublished g = (case d_isPublished body of None \<Rightarrow> isPublished g0 | Some b \<Rightarrow> b)))"
proof (intro conjI impI)
  assume a: "createOrUpdateGrade v d user body = (Body 200 r, d')"
  from postGrade_update[OF a] obtain e st su m sem yr where
    b: "d_student body = Some st" "d_subject body = Some su"
    and e: "findOneGrade d st su
             (case d_examType body of None \<Rightarrow> ''Regular'' | Some x \<Rightarrow> x) = Some e"
    and m: "d_marks body = Some m"
    and r: "r = Some (preSave (e\<lparr>marks := m, semester := sem, academicYear := yr,
                                   teacher := u_id user, remarks := d_remarks body,
                                   isPublished := False\<rparr>))"
    and f: "findGrade d' (g_id e) = r"
    by blast
  show "\<exists>st su e g. d_student body = Some st \<and> d_subject body = Some su
            \<and> findOneGrade d st su
                (case d_examType body of None \<Rightarrow> ''Regular'' | Some x \<Rightarrow> x) = Some e
            \<and> findGrade d' (g_id e) = Some g \<and> r = Some g
            \<and> Some (theoryMarks (marks g)) = map_option theoryMarks (d_marks body)
            \<and> Some (practical (marks g)) = map_option practical (d_marks body)
            \<and> Some (internal (marks g)) = map_option internal (d_marks body)
            \<and> \<not> isPublished g"
    apply (rule exI[of _ st], rule exI[of _ su], rule exI[of _ e])
    apply (rule exI[of _ "preSave (e\<lparr>marks := m, semester := sem, academicYear := yr,
                                   teacher := u_id user, remarks := d_remarks body,
                                   isPublished := False\<rparr>)"])
    using b e m r f by (simp add: preSave_fields)
next
  assume a: "updateGrade v now d user i body = (Body code r, d')"
  from putGrade_result[OF a]
  show "\<exists>g0 g. findGrade d i = Some g0 \<and> findGrade d' i = Some g \<and> r = Some g
            \<and> isPublished g = (case d_isPublished body of None \<Rightarrow> isPublished g0 | Some b \<Rightarrow> b)"
    by blast
qed

theorem C5_publication_after_edit_witness:
  "fst (createOrUpdateGrade rangeValidator exampleDb exampleTeacher (exampleData 100 1 72))
     = Body 200 (findGrade (snd (createOrUpdateGrade rangeValidator exampleDb exampleTeacher
                                   (exampleData 100 1 72))) 1000)
   \<and> map_option isPublished (findGrade exampleDb 1000) = Some True
   \<and> map_option isPublished
        (findGrade (snd (createOrUpdateGrade rangeValidator exampleDb exampleTeacher
                           (exampleData 100 1 72))) 1000) = Some False
   \<and> fst (updateGrade rangeValidator 7 exampleDb exampleTeacher 1000
             ((marksOnly 40)\<lparr>d_isPublished := Some False\<rparr>))
       = Body 200 (findGrade (snd (updateGrade rangeValidator 7 exampleDb exampleTeacher 1000
                                     ((marksOnly 40)\<lparr>d_isPublished := Some False\<rparr>))) 1000)
   \<and> map_option isPublished
        (findGrade (snd (updateGrade rangeValidator 7 exampleDb exampleTeacher 1000
                           ((marksOnly 40)\<lparr>d_isPublished := Some False\<rparr>))) 1000) = Some False"
proof -
  let ?p = "createOrUpdateGrade rangeValidator exampleDb exampleTeacher (exampleData 100 1 72)"
  let ?u = "updateGrade rangeValidator 7 exampleDb exampleTeacher 1000
              ((marksOnly 40)\<lparr>d_isPublished := Some False\<rparr>)"
  have p: "fst ?p = Body 200 (findGrade (snd ?p) 1000)" by code_simp
  have u: "fst ?u = Body 200 (findGrade (snd ?u) 1000)" by code_simp
  have o: "map_option isPublished (findGrade exampleDb 1000) = Some True" by code_simp
  have e: "findOneGrade exampleDb 100 1 ''Regular'' = findGrade exampleDb 1000" by code_simp
  have b: "d_student (exampleData 100 1 72) = Some 100" "d_subject (exampleData 100 1 72) = Some 1"
    "d_examType (exampleData 100 1 72) = None"
    "d_isPublished ((marksOnly 40)\<lparr>d_isPublished := Some False\<rparr>) = Some False"
    by (simp_all add: exampleData_def noData_def marksOnly_def)
  have hp: "?p = (Body 200 (findGrade (snd ?p) 1000), snd ?p)"
    using p by (simp add: prod_eq_iff)
  have hu: "?u = (Body 200 (findGrade (snd ?u) 1000), snd ?u)"
    using u by (simp add: prod_eq_iff)
  from C5_publication_after_edit[THEN conjunct1, rule_format, OF hp]
  obtain e0 g where "findOneGrade exampleDb 100 1 ''Regular'' = Some e0"
    "findGrade (snd ?p) (g_id e0) = Some g" "findGrade (snd ?p) 1000 = Some g" "\<not> isPublished g"
    unfolding b by auto
  then have 1: "map_option isPublished (findGrade (snd ?p) 1000) = Some False"
    by simp
  from C5_publication_after_edit[THEN conjunct2, rule_format, OF hu]
  obtain g0 g where "findGrade (snd ?u) 1000 = Some g" "isPublished g = False"
    unfolding b by auto
  then have 2: "map_option isPublished (findGrade (snd ?u) 1000) = Some False"
    by simp
  show ?thesis using p u o 1 2 by simp
qed

text \<open>
  The claim as stated fails on the direct update: teacher 20 replaces the marks of the
  published grade 1000 by 40, sends no \<open>isPublished\<close>, and the grade is stored with
  the new marks and grade and is still published.
\<close>

theorem C5_put_keeps_published_counterexample:
  "map_option isPublished (findGrade exampleDb 1000) = Some True
   \<and> fst (updateGrade rangeValidator 7 exampleDb exampleTeacher 1000 (marksOnly 40))
       = Body 200 (findGrade (snd (updateGrade rangeValidator 7 exampleDb exampleTeacher 1000
                                     (marksOnly 40))) 1000)
   \<and> map_option marks
        (findGrade (snd (updateGrade rangeValidator 7 exampleDb exampleTeacher 1000
                           (marksOnly 40))) 1000)
       = Some \<lparr>theoryMarks = Some 40, practical = None, internal = None, total = Some 40\<rparr>
   \<and> map_option grade
        (findGrade (snd (updateGrade rangeValidator 7 exampleDb exampleTeacher 1000
                           (marksOnly 40))) 1000)
       = Some ''P''
   \<and> map_option isPublished
        (findGrade (snd (updateGrade rangeValidator 7 exampleDb exampleTeacher 1000
                           (marksOnly 40))) 1000)
       = Some True"
  by code_simp

subsection \<open>The bulk loop\<close>












text \<open>
  C8. The rule holds on \<^verbatim>\<open>POST /api/grades\<close>, which refuses teacher 21 for subject
  1, taught by teacher 20, with 403. The bulk route has no such check: the same teacher
  creates a grade in subject 1 and overwrites grade 1000, recorded for teacher 20, both
  reported as successes and stored with teacher 21.
\<close>

theorem C8_bulk_create_by_unassigned_teacher:
  "u_role otherTeacher = Teacher \<and> u_id otherTeacher = 21
   \<and> map_option s_teacher (findSubject exampleDb 1) = Some (Some 20)
   \<and> map_option teacher (findGrade exampleDb 1000) = Some 20
   \<and> fst (createOrUpdateGrade rangeValidator exampleDb otherTeacher (exampleData 101 1 45))
       = Msg 403 ''You are not assigned to this subject''
   \<and> fst (bulkCreateGrades rangeValidator exampleDb otherTeacher
            [exampleData 101 1 45, exampleData 100 1 72])
       = Body 200 \<lparr>success = [(1, ''created'', 1002), (2, ''updated'', 1000)], errors = []\<rparr>
   \<and> summary (snd (bulkCreateGrades rangeValidator exampleDb otherTeacher
                     [exampleData 101 1 45, exampleData 100 1 72]))
       = [(1000, 21, Some 72, ''A'', 8, True), (1001, 20, Some 45, ''P'', 4, True),
          (1002, 21, Some 45, ''P'', 4, False)]"
  by code_simp

subsection \<open>Access decisions\<close>


lemma publishCheck_teacher:
  assumes "u_role user = Teacher" "publishCheck d user gs = None" "g \<in> set gs"
  shows "teacher g = u_id user"
  using assms by (induction gs) (auto split: if_splits)




lemma getGradeById_success:
  assumes "getGradeById d user i = Body c g"
  shows "findGrade d i = Some g
         \<and> (u_role user = Student \<longrightarrow> student g = u_id user \<and> isPublished g)
         \<and> (u_role user = Teacher \<longrightarrow> teacher g = u_id user)
         \<and> (u_role user = Hod \<longrightarrow>
               (\<exists>su. findSubject d (subject g) = Some su
                  \<and> u_department user = Some (s_department su)))"
proof -
  from assms obtain g0 where g0: "findGrade d i = Some g0"
    by (auto simp: getGradeById_def split: option.splits)
  have eq: "g = g0"
    using assms g0
    by (auto simp: getGradeById_def split: option.splits role.splits if_splits prod.splits)
  have st: "student g = u_id user \<and> isPublished g" if "u_role user = Student"
  proof -
    from assms g0 that obtain su where "findUser d (student g0) = Some su"
      "u_id su = u_id user" "isPublished g0"
      by (auto simp: getGradeById_def split: option.splits if_splits)
    then show ?thesis using findUser_Some eq by fastforce
  qed
  have te: "teacher g = u_id user" if "u_role user = Teacher"
  proof -
    from assms g0 that obtain tu where "findUser d (teacher g0) = Some tu" "u_id tu = u_id user"
      by (auto simp: getGradeById_def split: option.splits if_splits)
    then show ?thesis using findUser_Some eq by fastforce
  qed
  have ho: "\<exists>su. findSubject d (subject g) = Some su
                  \<and> u_department user = Some (s_department su)" if "u_role user = Hod"
    using assms g0 that eq
    by (auto simp: getGradeById_def split: option.splits if_splits prod.splits)
  show ?thesis using g0 eq st te ho by simp
qed

lemma listGrades_student:
  assumes "u_role user = Student" "listGrades d user q = Body c gs" "g \<in> set gs"
  shows "g \<in> set (grades d) \<and> student g = u_id user \<and> isPublished g"
proof -
  have f: "f_student (queryFilter user q (noFilter\<lparr>f_student := Some (u_id user), f_isPublished := Some True\<rparr>))
           = Some (u_id user)"
    "f_isPublished (queryFilter user q (noFilter\<lparr>f_student := Some (u_id user), f_isPublished := Some True\<rparr>))
           = Some True"
    using assms(1) by (simp_all add: queryFilter_def Let_def split: option.splits)
  from assms have "g \<in> set (findGrades d (queryFilter user q
      (noFilter\<lparr>f_student := Some (u_id user), f_isPublished := Some True\<rparr>)))"
    by (auto simp: listGrades_def roleFilter_def)
  then show ?thesis
    using f by (auto simp: findGrades_def matches_def holds_def)
qed


lemma student_writes_refused:
  assumes "u_role user = Student"
  shows "createOrUpdateGrade v d user body = (Msg 403 ''Access denied. Insufficient permissions.'', d)"
    "updateGrade v now d user i body = (Msg 403 ''Access denied. Insufficient permissions.'', d)"
    "deleteGrade d user i = (Msg 403 ''Access denied. Insufficient permissions.'', d)"
    "bulkCreateGrades v d user items = (Msg 403 ''Access denied. Insufficient permissions.'', d)"
    "publishBulk now d user ids = (Msg 403 ''Access denied. Insufficient permissions.'', d)"
  using assms
  by (simp_all add: createOrUpdateGrade_def updateGrade_def deleteGrade_def bulkCreateGrades_def
      publishBulk_def authorize_def)




text \<open>
  C7. For a student, a single grade is served only if it is the student's own and
  published; the grade list is the result of a query that is fixed to the student's id
  and to published grades, whatever the query string asks for, so every grade listed is
  the student's own and published; a CGPA is served only for the student's own id and
  computed from own published grades; and each of the five routes that write grades
  answers 403 and leaves the store as it is.
\<close>

theorem C7_student_own_published_only:
  assumes "u_role user = Student"
  shows "(getGradeById d user i = Body c g \<longrightarrow> student g = u_id user \<and> isPublished g)
       \<and> (\<exists>f. listGrades d user q = Body 200 (findGrades d f)
              \<and> f_student f = Some (u_id user) \<and> f_isPublished f = Some True)
       \<and> (listGrades d user q = Body c1 gs \<longrightarrow>
            (\<forall>g0 \<in> set gs. student g0 = u_id user \<and> isPublished g0))
       \<and> (getStudentCGPA d user sid cq = Body c2 r \<longrightarrow>
            sid = u_id user
            \<and> (\<exists>ps. resolved (selectGrades d sid cq) = Some ps \<and> r = computeCGPA ps
                  \<and> (\<forall>(g0, s) \<in> set ps. student g0 = u_id user \<and> isPublished g0)))
       \<and> createOrUpdateGrade v d user body
           = (Msg 403 ''Access denied. Insufficient permissions.'', d)
       \<and> updateGrade v now d user i body
           = (Msg 403 ''Access denied. Insufficient permissions.'', d)
       \<and> deleteGrade d user i = (Msg 403 ''Access denied. Insufficient permissions.'', d)
       \<and> bulkCreateGrades v d user items
           = (Msg 403 ''Access denied. Insufficient permissions.'', d)
       \<and> publishBulk now d user ids
           = (Msg 403 ''Access denied. Insufficient permissions.'', d)"
proof (intro conjI impI)
  assume "getGradeById d user i = Body c g"
  from getGradeById_success[OF this] assms
  show "student g = u_id user" "isPublished g" by simp_all
next
  let ?f = "queryFilter user q (noFilter\<lparr>f_student := Some (u_id user), f_isPublished := Some True\<rparr>)"
  have "listGrades d user q = Body 200 (findGrades d ?f)"
    using assms by (simp add: listGrades_def roleFilter_def)
  moreover have "f_student ?f = Some (u_id user)" "f_isPublished ?f = Some True"
    using assms by (simp_all add: queryFilter_def Let_def split: option.splits)
  ultimately show "\<exists>f. listGrades d user q = Body 200 (findGrades d f)
              \<and> f_student f = Some (u_id user) \<and> f_isPublished f = Some True"
    by blast
next
  assume "listGrades d user q = Body c1 gs"
  then show "\<forall>g0 \<in> set gs. student g0 = u_id user \<and> isPublished g0"
    using listGrades_student[OF assms] by blast
next
  assume a: "getStudentCGPA d user sid cq = Body c2 r"
  then show "sid = u_id user"
    using assms by (auto simp: getStudentCGPA_def split: if_splits)
next
  assume a: "getStudentCGPA d user sid cq = Body c2 r"
  then have sid: "sid = u_id user"
    using assms by (auto simp: getStudentCGPA_def split: if_splits)
  from a obtain ps where res: "resolved (selectGrades d sid cq) = Some ps"
    and r: "r = computeCGPA ps"
    by (auto simp: getStudentCGPA_def split: if_splits option.splits)
  have "\<forall>(g0, s) \<in> set ps. student g0 = u_id user \<and> isPublished g0"
  proof (intro ballI, clarify)
    fix g0 s assume "(g0, s) \<in> set ps"
    then have "(g0, Some s) \<in> set (selectGrades d sid cq)"
      unfolding resolved_Some[OF res] by force
    from selectGrades_sound[OF this]
    show "student g0 = u_id user \<and> isPublished g0" using sid by simp
  qed
  then show "\<exists>ps. resolved (selectGrades d sid cq) = Some ps \<and> r = computeCGPA ps
                  \<and> (\<forall>(g0, s) \<in> set ps. student g0 = u_id user \<and> isPublished g0)"
    using res r by blast
qed (rule student_writes_refused[OF assms])+

theorem C7_student_own_published_only_witness:
  "u_role exampleStudent = Student \<and> u_id exampleStudent = 100
   \<and> summary campusDb
       = [(1000, 20, Some 95, ''O'', 10, True), (1001, 20, Some 45, ''P'', 4, True),
          (1002, 20, Some 80, ''A+'', 9, False), (1003, 21, Some 60, ''B+'', 7, True)]
   \<and> map student (grades campusDb) = [100, 100, 100, 101]
   \<and> getGradeById campusDb exampleStudent 1000 = Body 200 (mkGrade 1000 100 1 20 95 1 True)
   \<and> getGradeById campusDb exampleStudent 1002 = Msg 403 ''Access denied''
   \<and> getGradeById campusDb exampleStudent 1003 = Msg 403 ''Access denied''
   \<and> listGrades campusDb exampleStudent
        (noListQuery\<lparr>lq_student := Some 101, lq_isPublished := Some ''false''\<rparr>)
       = Body 200 [mkGrade 1000 100 1 20 95 1 True, mkGrade 1001 100 2 20 45 2 True]
   \<and> getStudentCGPA campusDb exampleStudent 101 noQuery = Msg 403 ''Access denied''
   \<and> fst (updateGrade rangeValidator 7 campusDb exampleStudent 1000 (marksOnly 100))
       = Msg 403 ''Access denied. Insufficient permissions.''"
proof -
  have h: "u_role exampleStudent = Student" "u_id exampleStudent = 100"
    by (simp_all add: exampleStudent_def mkUser_def)
  have a: "getGradeById campusDb exampleStudent 1000 = Body 200 (mkGrade 1000 100 1 20 95 1 True)"
    by code_simp
  have e: "summary campusDb
       = [(1000, 20, Some 95, ''O'', 10, True), (1001, 20, Some 45, ''P'', 4, True),
          (1002, 20, Some 80, ''A+'', 9, False), (1003, 21, Some 60, ''B+'', 7, True)]
   \<and> map student (grades campusDb) = [100, 100, 100, 101]
   \<and> getGradeById campusDb exampleStudent 1002 = Msg 403 ''Access denied''
   \<and> getGradeById campusDb exampleStudent 1003 = Msg 403 ''Access denied''
   \<and> listGrades campusDb exampleStudent
        (noListQuery\<lparr>lq_student := Some 101, lq_isPublished := Some ''false''\<rparr>)
       = Body 200 [mkGrade 1000 100 1 20 95 1 True, mkGrade 1001 100 2 20 45 2 True]
   \<and> getStudentCGPA campusDb exampleStudent 101 noQuery = Msg 403 ''Access denied''"
    by code_simp
  note T = C7_student_own_published_only[OF h(1), where d = campusDb and v = rangeValidator
      and now = 7 and i = 1000 and body = "marksOnly 100"]
  have w: "fst (updateGrade rangeValidator 7 campusDb exampleStudent 1000 (marksOnly 100))
       = Msg 403 ''Access denied. Insufficient permissions.''"
    using T by simp
  show ?thesis
    using h a e w by simp
qed

subsection \<open>The aggregation is total\<close>







end
